theory Spec2Isabelle
  imports Complex_Main "HOL-Library.Word" "HOL-Library.AList"
begin

section \<open>Characters and the string predicates of the host language\<close>

text \<open>
  Source text is a list of 8-bit characters, read as the code points U+0000 to U+00FF.
  The predicates below are Python's \<^verbatim>\<open>str.isspace\<close>, \<^verbatim>\<open>str.isdigit\<close>,
  \<^verbatim>\<open>str.isalpha\<close>, \<^verbatim>\<open>str.isalnum\<close> and \<^verbatim>\<open>str.lower\<close> on that range.
\<close>

definition cp :: "char \<Rightarrow> nat" where
  "cp c = of_char c"

definition ascii_digit :: "char \<Rightarrow> bool" where
  "ascii_digit c = (48 \<le> cp c \<and> cp c \<le> 57)"

definition ascii_upper :: "char \<Rightarrow> bool" where
  "ascii_upper c = (65 \<le> cp c \<and> cp c \<le> 90)"

definition ascii_lower :: "char \<Rightarrow> bool" where
  "ascii_lower c = (97 \<le> cp c \<and> cp c \<le> 122)"

definition isspace :: "char \<Rightarrow> bool" where
  "isspace c = ((9 \<le> cp c \<and> cp c \<le> 13) \<or> (28 \<le> cp c \<and> cp c \<le> 32)
     \<or> cp c = 133 \<or> cp c = 160)"

definition isdigit :: "char \<Rightarrow> bool" where
  "isdigit c = (ascii_digit c \<or> cp c = 178 \<or> cp c = 179 \<or> cp c = 185)"

definition isalpha :: "char \<Rightarrow> bool" where
  "isalpha c = (ascii_upper c \<or> ascii_lower c \<or> cp c = 170 \<or> cp c = 181 \<or> cp c = 186
     \<or> (192 \<le> cp c \<and> cp c \<noteq> 215 \<and> cp c \<noteq> 247))"

definition isalnum :: "char \<Rightarrow> bool" where
  "isalnum c = (isalpha c \<or> isdigit c \<or> (188 \<le> cp c \<and> cp c \<le> 190))"

definition lower_char :: "char \<Rightarrow> char" where
  "lower_char c = (if ascii_upper c \<or> (192 \<le> cp c \<and> cp c \<le> 222 \<and> cp c \<noteq> 215)
     then char_of (cp c + 32) else c)"

definition lower :: "string \<Rightarrow> string" where
  "lower s = map lower_char s"

section \<open>Tokens\<close>

datatype TokenType =
    IDENTIFIER | NUMBER | STRING
  | FN | LET | VAR | CONST_TOK | IF | ELSE | WHILE | FOR | IN | RETURN | MATCH | ASYNC | AWAIT
  | TRUE | FALSE
  | PLUS | MINUS | MULTIPLY | DIVIDE | MODULO | ASSIGN | EQ | NEQ | LT | GT | LTE | GTE
  | AND | OR | NOT
  | LPAREN | RPAREN | LBRACE | RBRACE | LBRACKET | RBRACKET | COMMA | COLON | ARROW | DOT
  | SEMICOLON
  | EOF

record token =
  tok_type :: TokenType
  tok_value :: string
  tok_line :: int
  tok_column :: int

definition Token :: "TokenType \<Rightarrow> string \<Rightarrow> int \<Rightarrow> int \<Rightarrow> token" where
  "Token ty v l c = \<lparr>tok_type = ty, tok_value = v, tok_line = l, tok_column = c\<rparr>"

text \<open>The exceptions of lexing and parsing, as values.\<close>

datatype parse_error =
    IllegalCharacter char int int
  | ExpectedToken TokenType TokenType
  | UnexpectedToken TokenType
  | InvalidPattern int int
  | ExpectedCommaOrBrace int int
  | AttributeError
  | InvalidLiteral string

section \<open>The lexer of clarity\_parser\<close>

record lexer =
  ltext :: string
  pos :: nat
  current_char :: "char option"
  line :: int
  column :: int

definition Lexer :: "string \<Rightarrow> lexer" where
  "Lexer t = \<lparr>ltext = t, pos = 0, current_char = (if t = [] then None else Some (t ! 0)),
     line = 1, column = 0\<rparr>"

definition advance :: "lexer \<Rightarrow> lexer" where
  "advance lx =
     (let lx1 = (if current_char lx = Some (CHR 0x0A)
                 then lx\<lparr>line := line lx + 1, column := 0\<rparr>
                 else lx\<lparr>column := column lx + 1\<rparr>);
          lx2 = lx1\<lparr>pos := pos lx1 + 1\<rparr>
      in if pos lx2 \<ge> length (ltext lx2) then lx2\<lparr>current_char := None\<rparr>
         else lx2\<lparr>current_char := Some (ltext lx2 ! pos lx2)\<rparr>)"

definition peek :: "lexer \<Rightarrow> char option" where
  "peek lx = (let peek_pos = pos lx + 1
     in if peek_pos \<ge> length (ltext lx) then None else Some (ltext lx ! peek_pos))"

text \<open>
  What is left to scan: it drops with every \<open>advance\<close> from a state that has a current
  character, which is what ends each loop of the lexer.
\<close>

definition remaining :: "lexer \<Rightarrow> nat" where
  "remaining lx = (case current_char lx of None \<Rightarrow> 0 | Some c \<Rightarrow> Suc (length (ltext lx) - pos lx))"

lemma remaining_advance: "current_char lx = Some c \<Longrightarrow> remaining (advance lx) < remaining lx"
  by (auto simp: remaining_def advance_def Let_def)

function skip_whitespace :: "lexer \<Rightarrow> lexer" where
  "skip_whitespace lx =
     (case current_char lx of
        None \<Rightarrow> lx
      | Some c \<Rightarrow> if isspace c then skip_whitespace (advance lx) else lx)"
  by pat_completeness auto
termination
  by (relation "measure remaining") (auto simp: remaining_advance)

function skip_comment :: "lexer \<Rightarrow> lexer" where
  "skip_comment lx =
     (case current_char lx of
        None \<Rightarrow> lx
      | Some c \<Rightarrow> if c \<noteq> CHR 0x0A then skip_comment (advance lx) else lx)"
  by pat_completeness auto
termination
  by (relation "measure remaining") (auto simp: remaining_advance)

function read_number_loop :: "string \<Rightarrow> lexer \<Rightarrow> string \<times> lexer" where
  "read_number_loop result lx =
     (case current_char lx of
        None \<Rightarrow> (result, lx)
      | Some c \<Rightarrow> if isdigit c then read_number_loop (result @ [c]) (advance lx)
                  else (result, lx))"
  by pat_completeness auto
termination
  by (relation "measure (\<lambda>(r, lx). remaining lx)") (auto simp: remaining_advance)

definition read_number :: "lexer \<Rightarrow> string \<times> lexer" where
  "read_number lx = read_number_loop [] lx"

function read_identifier_loop :: "string \<Rightarrow> lexer \<Rightarrow> string \<times> lexer" where
  "read_identifier_loop result lx =
     (case current_char lx of
        None \<Rightarrow> (result, lx)
      | Some c \<Rightarrow> if isalnum c \<or> c = CHR ''_''
                  then read_identifier_loop (result @ [c]) (advance lx)
                  else (result, lx))"
  by pat_completeness auto
termination
  by (relation "measure (\<lambda>(r, lx). remaining lx)") (auto simp: remaining_advance)

definition read_identifier :: "lexer \<Rightarrow> string \<times> lexer" where
  "read_identifier lx = read_identifier_loop [] lx"

function read_string_loop :: "char option \<Rightarrow> string \<Rightarrow> lexer \<Rightarrow> string \<times> lexer" where
  "read_string_loop quote_char result lx =
     (case current_char lx of
        None \<Rightarrow> (result, lx)
      | Some c \<Rightarrow>
          if Some c = quote_char then (result, lx)
          else if c = CHR 0x5C then
            (case current_char (advance lx) of
               None \<Rightarrow> read_string_loop quote_char result (advance lx)
             | Some d \<Rightarrow> read_string_loop quote_char (result @ [d]) (advance (advance lx)))
          else read_string_loop quote_char (result @ [c]) (advance lx))"
  by pat_completeness auto
termination
proof (relation "measure (\<lambda>(q, r, lx). remaining lx)", goal_cases)
  case 1
  show ?case by simp
next
  case (2 quote_char result lx c)
  then show ?case by (simp add: remaining_advance)
next
  case (3 quote_char result lx c d)
  then have "remaining (advance (advance lx)) < remaining (advance lx)"
    by (simp add: remaining_advance)
  moreover from 3 have "remaining (advance lx) < remaining lx"
    by (simp add: remaining_advance)
  ultimately show ?case by simp
next
  case (4 quote_char result lx c)
  then show ?case by (simp add: remaining_advance)
qed

definition read_string :: "lexer \<Rightarrow> string \<times> lexer" where
  "read_string lx =
     (let quote_char = current_char lx;
          (result, lx1) = read_string_loop quote_char [] (advance lx)
      in (result, if current_char lx1 = quote_char then advance lx1 else lx1))"

definition keyword_map :: "string \<Rightarrow> TokenType option" where
  "keyword_map = map_of
     [(''fn'', FN), (''let'', LET), (''var'', VAR), (''const'', CONST_TOK), (''if'', IF),
      (''else'', ELSE), (''while'', WHILE), (''for'', FOR), (''in'', IN),
      (''return'', RETURN), (''match'', MATCH), (''async'', ASYNC), (''await'', AWAIT),
      (''true'', TRUE), (''false'', FALSE)]"

definition char_tokens :: "char \<Rightarrow> TokenType option" where
  "char_tokens = map_of
     [(CHR ''+'', PLUS), (CHR ''-'', MINUS), (CHR ''*'', MULTIPLY), (CHR ''/'', DIVIDE),
      (CHR ''%'', MODULO), (CHR ''='', ASSIGN), (CHR ''!'', NOT), (CHR ''<'', LT),
      (CHR ''>'', GT), (CHR ''('', LPAREN), (CHR '')'', RPAREN), (CHR ''{'', LBRACE),
      (CHR ''}'', RBRACE), (CHR ''['', LBRACKET), (CHR '']'', RBRACKET), (CHR '','', COMMA),
      (CHR '':'', COLON), (CHR ''.'', DOT), (CHR '';'', SEMICOLON)]"

text \<open>
  The two-character operators of \<open>get_next_token\<close>: both characters are consumed first
  and the token then takes the lexer's line and its column minus one.
\<close>

definition two_char_token :: "TokenType \<Rightarrow> string \<Rightarrow> lexer \<Rightarrow> token \<times> lexer" where
  "two_char_token ty v lx =
     (let lx2 = advance (advance lx) in (Token ty v (line lx2) (column lx2 - 1), lx2))"

lemma peek_advance: "peek lx = Some d \<Longrightarrow> current_char (advance lx) = Some d"
  by (auto simp: peek_def advance_def Let_def split: if_splits)

lemma remaining_skip_whitespace: "remaining (skip_whitespace lx) \<le> remaining lx"
proof (induction lx rule: skip_whitespace.induct)
  case (1 lx)
  show ?case
  proof (cases "current_char lx")
    case None
    then show ?thesis by simp
  next
    case (Some c)
    show ?thesis
    proof (cases "isspace c")
      case True
      with Some "1.IH" have "remaining (skip_whitespace (advance lx)) \<le> remaining (advance lx)"
        by simp
      moreover from Some have "remaining (advance lx) < remaining lx"
        by (rule remaining_advance)
      ultimately show ?thesis using Some True by simp
    next
      case False
      with Some show ?thesis by simp
    qed
  qed
qed

lemma remaining_skip_whitespace_less:
  assumes "current_char lx = Some c" and "isspace c"
  shows "remaining (skip_whitespace lx) < remaining lx"
proof -
  have "skip_whitespace lx = skip_whitespace (advance lx)"
    using assms by simp
  moreover have "remaining (skip_whitespace (advance lx)) \<le> remaining (advance lx)"
    by (rule remaining_skip_whitespace)
  moreover have "remaining (advance lx) < remaining lx"
    using assms(1) by (rule remaining_advance)
  ultimately show ?thesis by simp
qed

lemma remaining_skip_comment: "remaining (skip_comment lx) \<le> remaining lx"
proof (induction lx rule: skip_comment.induct)
  case (1 lx)
  show ?case
  proof (cases "current_char lx")
    case None
    then show ?thesis by simp
  next
    case (Some c)
    show ?thesis
    proof (cases "c \<noteq> CHR 0x0A")
      case True
      with Some "1.IH" have "remaining (skip_comment (advance lx)) \<le> remaining (advance lx)"
        by simp
      moreover from Some have "remaining (advance lx) < remaining lx"
        by (rule remaining_advance)
      ultimately show ?thesis using Some True by simp
    next
      case False
      with Some show ?thesis by simp
    qed
  qed
qed

lemma remaining_comment_less:
  assumes "current_char lx = Some c" and "peek lx = Some d"
  shows "remaining (skip_comment (advance (advance lx))) < remaining lx"
proof -
  have "remaining (advance lx) < remaining lx"
    using assms(1) by (rule remaining_advance)
  moreover have "remaining (advance (advance lx)) < remaining (advance lx)"
    using peek_advance [OF assms(2)] by (rule remaining_advance)
  moreover have "remaining (skip_comment (advance (advance lx))) \<le> remaining (advance (advance lx))"
    by (rule remaining_skip_comment)
  ultimately show ?thesis by simp
qed

declare skip_whitespace.simps [simp del] skip_comment.simps [simp del]
  read_number_loop.simps [simp del] read_identifier_loop.simps [simp del]
  read_string_loop.simps [simp del]

function get_next_token :: "lexer \<Rightarrow> parse_error + token \<times> lexer" where
  "get_next_token lx =
     (case current_char lx of
        None \<Rightarrow> Inr (Token EOF [] (line lx) (column lx), lx)
      | Some c \<Rightarrow>
          if isspace c then get_next_token (skip_whitespace lx)
          else if c = CHR ''/'' \<and> peek lx = Some (CHR ''/'')
            then get_next_token (skip_comment (advance (advance lx)))
          else if isdigit c then
            (case read_number lx of (v, lx') \<Rightarrow> Inr (Token NUMBER v (line lx) (column lx), lx'))
          else if isalpha c \<or> c = CHR ''_'' then
            (case read_identifier lx of (v, lx') \<Rightarrow>
               Inr (Token (case keyword_map (lower v) of None \<Rightarrow> IDENTIFIER | Some ty \<Rightarrow> ty)
                      v (line lx) (column lx), lx'))
          else if c = CHR 0x22 \<or> c = CHR 0x27 then
            (case read_string lx of (v, lx') \<Rightarrow> Inr (Token STRING v (line lx) (column lx), lx'))
          else if c = CHR ''='' \<and> peek lx = Some (CHR ''>'') then Inr (two_char_token ARROW ''->'' lx)
          else if c = CHR ''-'' \<and> peek lx = Some (CHR ''>'') then Inr (two_char_token ARROW ''->'' lx)
          else if c = CHR ''='' \<and> peek lx = Some (CHR ''='') then Inr (two_char_token EQ ''=='' lx)
          else if c = CHR ''!'' \<and> peek lx = Some (CHR ''='') then Inr (two_char_token NEQ ''!='' lx)
          else if c = CHR ''<'' \<and> peek lx = Some (CHR ''='') then Inr (two_char_token LTE ''<='' lx)
          else if c = CHR ''>'' \<and> peek lx = Some (CHR ''='') then Inr (two_char_token GTE ''>='' lx)
          else if c = CHR ''&'' \<and> peek lx = Some (CHR ''&'') then Inr (two_char_token AND ''&&'' lx)
          else if c = CHR ''|'' \<and> peek lx = Some (CHR ''|'') then Inr (two_char_token OR ''||'' lx)
          else (case char_tokens c of
                  Some ty \<Rightarrow> Inr (Token ty [c] (line lx) (column lx), advance lx)
                | None \<Rightarrow> Inl (IllegalCharacter c (line lx) (column lx))))"
  by pat_completeness auto
termination
  by (relation "measure remaining")
     (auto simp: remaining_skip_whitespace_less remaining_comment_less)

declare get_next_token.simps [simp del]

section \<open>The lexer of optimized\_lexer\<close>

record olexer =
  otext :: string
  olength :: nat
  opos :: nat
  oline :: int
  ocolumn :: int
  ocurrent_char :: "char option"
  token_pool :: "((TokenType \<times> string) \<times> token) list"

definition OptimizedLexer :: "string \<Rightarrow> olexer" where
  "OptimizedLexer t = \<lparr>otext = t, olength = length t, opos = 0, oline = 1, ocolumn = 0,
     ocurrent_char = (if t = [] then None else Some (t ! 0)), token_pool = []\<rparr>"

definition WHITESPACE_CHARS :: "char set" where
  "WHITESPACE_CHARS = {CHR '' '', CHR 0x09, CHR 0x0A, CHR 0x0D, CHR 0x0B, CHR 0x0C}"

definition DIGIT_CHARS :: "char set" where
  "DIGIT_CHARS = set ''0123456789''"

definition LETTER_CHARS :: "char set" where
  "LETTER_CHARS = set ''abcdefghijklmnopqrstuvwxyzABCDEFGHIJKLMNOPQRSTUVWXYZ_''"

definition KEYWORDS :: "string \<Rightarrow> TokenType option" where
  "KEYWORDS = map_of
     [(''fn'', FN), (''let'', LET), (''var'', VAR), (''const'', CONST_TOK), (''if'', IF),
      (''else'', ELSE), (''while'', WHILE), (''for'', FOR), (''in'', IN),
      (''return'', RETURN), (''match'', MATCH), (''async'', ASYNC), (''await'', AWAIT),
      (''true'', TRUE), (''false'', FALSE)]"

definition SINGLE_CHAR_TOKENS :: "char \<Rightarrow> TokenType option" where
  "SINGLE_CHAR_TOKENS = map_of
     [(CHR ''+'', PLUS), (CHR ''-'', MINUS), (CHR ''*'', MULTIPLY), (CHR ''/'', DIVIDE),
      (CHR ''%'', MODULO), (CHR ''='', ASSIGN), (CHR ''!'', NOT), (CHR ''<'', LT),
      (CHR ''>'', GT), (CHR ''('', LPAREN), (CHR '')'', RPAREN), (CHR ''{'', LBRACE),
      (CHR ''}'', RBRACE), (CHR ''['', LBRACKET), (CHR '']'', RBRACKET), (CHR '','', COMMA),
      (CHR '':'', COLON), (CHR ''.'', DOT), (CHR '';'', SEMICOLON)]"

definition DOUBLE_CHAR_OPERATORS :: "string \<Rightarrow> TokenType option" where
  "DOUBLE_CHAR_OPERATORS = map_of
     [(''=>'', ARROW), (''=='', EQ), (''!='', NEQ), (''<='', LTE), (''>='', GTE),
      (''&&'', AND), (''||'', OR)]"

definition o_advance :: "olexer \<Rightarrow> olexer" where
  "o_advance lx =
     (let lx1 = (if ocurrent_char lx = Some (CHR 0x0A)
                 then lx\<lparr>oline := oline lx + 1, ocolumn := 0\<rparr>
                 else lx\<lparr>ocolumn := ocolumn lx + 1\<rparr>);
          lx2 = lx1\<lparr>opos := opos lx1 + 1\<rparr>
      in if opos lx2 \<ge> olength lx2 then lx2\<lparr>ocurrent_char := None\<rparr>
         else lx2\<lparr>ocurrent_char := Some (otext lx2 ! opos lx2)\<rparr>)"

definition o_peek :: "olexer \<Rightarrow> char option" where
  "o_peek lx = (let peek_pos = opos lx + 1
     in if peek_pos \<ge> olength lx then None else Some (otext lx ! peek_pos))"

definition o_remaining :: "olexer \<Rightarrow> nat" where
  "o_remaining lx = (case ocurrent_char lx of None \<Rightarrow> 0 | Some c \<Rightarrow> Suc (olength lx - opos lx))"

lemma o_remaining_advance:
  "ocurrent_char lx = Some c \<Longrightarrow> o_remaining (o_advance lx) < o_remaining lx"
  by (auto simp: o_remaining_def o_advance_def Let_def)

function o_skip_whitespace :: "olexer \<Rightarrow> olexer" where
  "o_skip_whitespace lx =
     (case ocurrent_char lx of
        None \<Rightarrow> lx
      | Some c \<Rightarrow> if c \<in> WHITESPACE_CHARS then o_skip_whitespace (o_advance lx) else lx)"
  by pat_completeness auto
termination
  by (relation "measure o_remaining") (auto simp: o_remaining_advance)

function o_skip_comment :: "olexer \<Rightarrow> olexer" where
  "o_skip_comment lx =
     (case ocurrent_char lx of
        None \<Rightarrow> lx
      | Some c \<Rightarrow> if c \<noteq> CHR 0x0A then o_skip_comment (o_advance lx) else lx)"
  by pat_completeness auto
termination
  by (relation "measure o_remaining") (auto simp: o_remaining_advance)

function o_skip_digits :: "olexer \<Rightarrow> olexer" where
  "o_skip_digits lx =
     (case ocurrent_char lx of
        None \<Rightarrow> lx
      | Some c \<Rightarrow> if c \<in> DIGIT_CHARS then o_skip_digits (o_advance lx) else lx)"
  by pat_completeness auto
termination
  by (relation "measure o_remaining") (auto simp: o_remaining_advance)

text \<open>\<open>text[a:b]\<close> for \<open>0 \<le> a\<close> and \<open>0 \<le> b\<close>.\<close>

definition slice :: "string \<Rightarrow> nat \<Rightarrow> nat \<Rightarrow> string" where
  "slice t a b = drop a (take b t)"

definition o_read_number :: "olexer \<Rightarrow> string \<times> olexer" where
  "o_read_number lx =
     (let start_pos = opos lx;
          lx1 = o_skip_digits lx;
          lx2 = (if ocurrent_char lx1 = Some (CHR ''.'') \<and>
                    (case o_peek lx1 of None \<Rightarrow> False | Some d \<Rightarrow> d \<in> DIGIT_CHARS)
                 then o_skip_digits (o_advance lx1) else lx1)
      in (slice (otext lx2) start_pos (opos lx2), lx2))"

function o_skip_identifier :: "olexer \<Rightarrow> olexer" where
  "o_skip_identifier lx =
     (case ocurrent_char lx of
        None \<Rightarrow> lx
      | Some c \<Rightarrow> if c \<in> LETTER_CHARS \<or> c \<in> DIGIT_CHARS then o_skip_identifier (o_advance lx)
                  else lx)"
  by pat_completeness auto
termination
  by (relation "measure o_remaining") (auto simp: o_remaining_advance)

definition o_read_identifier :: "olexer \<Rightarrow> string \<times> olexer" where
  "o_read_identifier lx =
     (let start_pos = opos lx; lx1 = o_skip_identifier lx
      in (slice (otext lx1) start_pos (opos lx1), lx1))"

function o_read_string_loop :: "char option \<Rightarrow> string \<Rightarrow> olexer \<Rightarrow> string \<times> olexer" where
  "o_read_string_loop quote_char chars lx =
     (case ocurrent_char lx of
        None \<Rightarrow> (chars, lx)
      | Some c \<Rightarrow>
          if Some c = quote_char then (chars, lx)
          else if c = CHR 0x5C then
            (case ocurrent_char (o_advance lx) of
               None \<Rightarrow> o_read_string_loop quote_char chars (o_advance lx)
             | Some d \<Rightarrow>
                 o_read_string_loop quote_char (chars @ [CHR 0x5C] @ [d]) (o_advance (o_advance lx)))
          else o_read_string_loop quote_char (chars @ [c]) (o_advance lx))"
  by pat_completeness auto
termination
proof (relation "measure (\<lambda>(q, r, lx). o_remaining lx)", goal_cases)
  case 1
  show ?case by simp
next
  case (2 quote_char chars lx c)
  then show ?case by (simp add: o_remaining_advance)
next
  case (3 quote_char chars lx c d)
  then have "o_remaining (o_advance (o_advance lx)) < o_remaining (o_advance lx)"
    by (simp add: o_remaining_advance)
  moreover from 3 have "o_remaining (o_advance lx) < o_remaining lx"
    by (simp add: o_remaining_advance)
  ultimately show ?case by simp
next
  case (4 quote_char chars lx c)
  then show ?case by (simp add: o_remaining_advance)
qed

definition o_read_string :: "olexer \<Rightarrow> string \<times> olexer" where
  "o_read_string lx =
     (let quote_char = ocurrent_char lx;
          (chars, lx1) = o_read_string_loop quote_char [] (o_advance lx)
      in (chars, if ocurrent_char lx1 = quote_char then o_advance lx1 else lx1))"

definition get_pooled_token ::
  "TokenType \<Rightarrow> string \<Rightarrow> int \<Rightarrow> int \<Rightarrow> olexer \<Rightarrow> token \<times> olexer" where
  "get_pooled_token ty v l c lx =
     (if ty \<in> {EOF, TRUE, FALSE} then
        (case map_of (token_pool lx) (ty, v) of
           None \<Rightarrow> (Token ty v l c, lx\<lparr>token_pool := ((ty, v), Token ty v l c) # token_pool lx\<rparr>)
         | Some t \<Rightarrow> (t, lx))
      else (Token ty v l c, lx))"

lemma o_peek_advance: "o_peek lx = Some d \<Longrightarrow> ocurrent_char (o_advance lx) = Some d"
  by (auto simp: o_peek_def o_advance_def Let_def split: if_splits)

lemma o_remaining_skip_whitespace: "o_remaining (o_skip_whitespace lx) \<le> o_remaining lx"
proof (induction lx rule: o_skip_whitespace.induct)
  case (1 lx)
  show ?case
  proof (cases "ocurrent_char lx")
    case None
    then show ?thesis by simp
  next
    case (Some c)
    show ?thesis
    proof (cases "c \<in> WHITESPACE_CHARS")
      case True
      with Some "1.IH"
      have "o_remaining (o_skip_whitespace (o_advance lx)) \<le> o_remaining (o_advance lx)"
        by simp
      moreover from Some have "o_remaining (o_advance lx) < o_remaining lx"
        by (rule o_remaining_advance)
      ultimately show ?thesis using Some True by simp
    next
      case False
      with Some show ?thesis by simp
    qed
  qed
qed

lemma o_remaining_skip_whitespace_less:
  assumes "ocurrent_char lx = Some c" and "c \<in> WHITESPACE_CHARS"
  shows "o_remaining (o_skip_whitespace lx) < o_remaining lx"
proof -
  have "o_skip_whitespace lx = o_skip_whitespace (o_advance lx)"
    using assms by simp
  moreover have "o_remaining (o_skip_whitespace (o_advance lx)) \<le> o_remaining (o_advance lx)"
    by (rule o_remaining_skip_whitespace)
  moreover have "o_remaining (o_advance lx) < o_remaining lx"
    using assms(1) by (rule o_remaining_advance)
  ultimately show ?thesis by simp
qed

lemma o_remaining_skip_comment: "o_remaining (o_skip_comment lx) \<le> o_remaining lx"
proof (induction lx rule: o_skip_comment.induct)
  case (1 lx)
  show ?case
  proof (cases "ocurrent_char lx")
    case None
    then show ?thesis by simp
  next
    case (Some c)
    show ?thesis
    proof (cases "c \<noteq> CHR 0x0A")
      case True
      with Some "1.IH"
      have "o_remaining (o_skip_comment (o_advance lx)) \<le> o_remaining (o_advance lx)"
        by simp
      moreover from Some have "o_remaining (o_advance lx) < o_remaining lx"
        by (rule o_remaining_advance)
      ultimately show ?thesis using Some True by simp
    next
      case False
      with Some show ?thesis by simp
    qed
  qed
qed

lemma o_remaining_comment_less:
  assumes "ocurrent_char lx = Some c" and "o_peek lx = Some d"
  shows "o_remaining (o_skip_comment (o_advance (o_advance lx))) < o_remaining lx"
proof -
  have "o_remaining (o_advance lx) < o_remaining lx"
    using assms(1) by (rule o_remaining_advance)
  moreover have "o_remaining (o_advance (o_advance lx)) < o_remaining (o_advance lx)"
    using o_peek_advance [OF assms(2)] by (rule o_remaining_advance)
  moreover have "o_remaining (o_skip_comment (o_advance (o_advance lx)))
      \<le> o_remaining (o_advance (o_advance lx))"
    by (rule o_remaining_skip_comment)
  ultimately show ?thesis by simp
qed

declare o_skip_whitespace.simps [simp del] o_skip_comment.simps [simp del]
  o_skip_digits.simps [simp del] o_skip_identifier.simps [simp del]
  o_read_string_loop.simps [simp del]

function o_get_next_token :: "olexer \<Rightarrow> parse_error + token \<times> olexer" where
  "o_get_next_token lx =
     (case ocurrent_char lx of
        None \<Rightarrow> Inr (get_pooled_token EOF [] (oline lx) (ocolumn lx) lx)
      | Some char \<Rightarrow>
          if char \<in> WHITESPACE_CHARS then o_get_next_token (o_skip_whitespace lx)
          else if char = CHR ''/'' \<and> o_peek lx = Some (CHR ''/'')
            then o_get_next_token (o_skip_comment (o_advance (o_advance lx)))
          else if char \<in> DIGIT_CHARS then
            (case o_read_number lx of (v, lx') \<Rightarrow>
               Inr (Token NUMBER v (oline lx) (ocolumn lx), lx'))
          else if char \<in> LETTER_CHARS then
            (case o_read_identifier lx of (v, lx') \<Rightarrow>
               Inr (Token (case KEYWORDS (lower v) of None \<Rightarrow> IDENTIFIER | Some ty \<Rightarrow> ty)
                      v (oline lx) (ocolumn lx), lx'))
          else if char = CHR 0x22 \<or> char = CHR 0x27 then
            (case o_read_string lx of (v, lx') \<Rightarrow>
               Inr (Token STRING v (oline lx) (ocolumn lx), lx'))
          else
            (case (case o_peek lx of
                     None \<Rightarrow> None
                   | Some next_char \<Rightarrow>
                       map_option (\<lambda>ty. (ty, [char, next_char]))
                         (DOUBLE_CHAR_OPERATORS [char, next_char])) of
               Some (ty, two_char) \<Rightarrow>
                 Inr (Token ty two_char (oline lx) (ocolumn lx), o_advance (o_advance lx))
             | None \<Rightarrow>
                 (case SINGLE_CHAR_TOKENS char of
                    Some ty \<Rightarrow> Inr (Token ty [char] (oline lx) (ocolumn lx), o_advance lx)
                  | None \<Rightarrow> Inl (IllegalCharacter char (oline lx) (ocolumn lx)))))"
  by pat_completeness auto
termination
  by (relation "measure o_remaining")
     (auto simp: o_remaining_skip_whitespace_less o_remaining_comment_less)

declare o_get_next_token.simps [simp del]

section \<open>The syntax tree\<close>

text \<open>
  The name of a \<open>FunctionCall\<close> is whatever \<open>parse_call\<close> finds in the \<open>name\<close> or
  \<open>value\<close> attribute of the called expression: a string, an integer or a boolean.
\<close>

datatype callee = NameStr string | NameInt int | NameBool bool

datatype node =
    Program "node list"
  | FunctionDef string "(string \<times> string) list" "string option" "node list"
  | VariableDecl bool string "string option" node
  | ConstantDecl string node
  | Assignment string node
  | BinaryOp node string node
  | UnaryOp string node
  | IfExpr node "node list" "node list option"
  | WhileLoop node "node list"
  | ForLoop string node "node list"
  | ReturnStmt "node option"
  | FunctionCall callee "node list"
  | Identifier string
  | Number int
  | String string
  | Boolean bool
  | MatchExpr node "(node \<times> node) list"

section \<open>Results of computations that can raise or run out of budget\<close>

text \<open>
  \<open>Ok\<close> is a normal return, \<open>Raise\<close> an exception. Recursion and loops whose end is
  not structural run on a budget of steps; \<open>Timeout\<close> is the budget running out and
  stands for no result at all. \<open>Unmodelled\<close> marks the few operations of the host
  language whose result this development does not describe (float arithmetic with its
  rounding, string formatting with \<open>%\<close>, comparison of objects by identity): there the
  model makes no statement.
\<close>

datatype ('e, 'a) outcome = Ok 'a | Raise 'e | Timeout | Unmodelled

section \<open>The parser of clarity\_parser\<close>

record parser =
  plexer :: lexer
  current_token :: token

type_synonym 'a parse = "parser \<Rightarrow> (parse_error, 'a \<times> parser) outcome"

definition bind_p :: "'a parse \<Rightarrow> ('a \<Rightarrow> 'b parse) \<Rightarrow> 'b parse" where
  "bind_p m f p = (case m p of
      Ok (a, p') \<Rightarrow> f a p'
    | Raise e \<Rightarrow> Raise e
    | Timeout \<Rightarrow> Timeout
    | Unmodelled \<Rightarrow> Unmodelled)"

definition ret :: "'a \<Rightarrow> 'a parse" where
  "ret a p = Ok (a, p)"

definition cur_type :: "parser \<Rightarrow> TokenType" where
  "cur_type p = tok_type (current_token p)"

definition Parser :: "lexer \<Rightarrow> (parse_error, parser) outcome" where
  "Parser lx = (case get_next_token lx of
      Inl e \<Rightarrow> Raise e
    | Inr (t, lx') \<Rightarrow> Ok \<lparr>plexer = lx', current_token = t\<rparr>)"

definition eat :: "TokenType \<Rightarrow> unit parse" where
  "eat token_type p =
     (if tok_type (current_token p) = token_type then
        (case get_next_token (plexer p) of
           Inl e \<Rightarrow> Raise e
         | Inr (t, lx') \<Rightarrow> Ok ((), p\<lparr>plexer := lx', current_token := t\<rparr>))
      else Raise (ExpectedToken token_type (tok_type (current_token p))))"

definition eat_semicolon :: "unit parse" where
  "eat_semicolon p = (if cur_type p = SEMICOLON then eat SEMICOLON p else Ok ((), p))"

text \<open>\<open>int(s)\<close> on the lexeme of a number token: decimal digits only.\<close>

definition digit_val :: "char \<Rightarrow> int" where
  "digit_val c = int (cp c) - 48"

definition py_int :: "string \<Rightarrow> int option" where
  "py_int s = (if s \<noteq> [] \<and> list_all ascii_digit s
     then Some (foldl (\<lambda>acc c. 10 * acc + digit_val c) 0 s) else None)"

text \<open>\<open>expr.name if hasattr(expr, 'name') else expr.value\<close>\<close>

fun callee_of :: "node \<Rightarrow> callee option" where
  "callee_of (FunctionDef name ps rt body) = Some (NameStr name)"
| "callee_of (VariableDecl m name ty v) = Some (NameStr name)"
| "callee_of (ConstantDecl name v) = Some (NameStr name)"
| "callee_of (Assignment name v) = Some (NameStr name)"
| "callee_of (FunctionCall name args) = Some name"
| "callee_of (Identifier name) = Some (NameStr name)"
| "callee_of (Number v) = Some (NameInt v)"
| "callee_of (String v) = Some (NameStr v)"
| "callee_of (Boolean v) = Some (NameBool v)"
| "callee_of _ = None"

text \<open>
  The parsing methods call each other in a cycle (\<open>parse_expression\<close> down to
  \<open>parse_primary\<close> and back). Each method is written here with the methods it calls as
  parameters, and with a budget for its own loop; \<open>parse_expression\<close> then ties the knot
  by recursion on the budget.
\<close>

text \<open>
  The loop shared by the six binary levels: while the current token is one of the level's
  operators, eat it, parse the right operand and fold it into the left one.
\<close>

fun parse_binary_loop :: "nat \<Rightarrow> TokenType list \<Rightarrow> node parse \<Rightarrow> node \<Rightarrow> node parse" where
  "parse_binary_loop 0 ops operand left p = Timeout"
| "parse_binary_loop (Suc k) ops operand left p = (
     if cur_type p \<in> set ops then
       (let op = current_token p in
        bind_p (eat (tok_type op)) (\<lambda>_. bind_p operand (\<lambda>right.
          parse_binary_loop k ops operand (BinaryOp left (tok_value op) right))) p)
     else Ok (left, p))"

definition parse_logical_or_of :: "node parse \<Rightarrow> nat \<Rightarrow> node parse" where
  "parse_logical_or_of parse_logical_and k =
     bind_p parse_logical_and (parse_binary_loop k [OR] parse_logical_and)"

definition parse_logical_and_of :: "node parse \<Rightarrow> nat \<Rightarrow> node parse" where
  "parse_logical_and_of parse_equality k =
     bind_p parse_equality (parse_binary_loop k [AND] parse_equality)"

definition parse_equality_of :: "node parse \<Rightarrow> nat \<Rightarrow> node parse" where
  "parse_equality_of parse_comparison k =
     bind_p parse_comparison (parse_binary_loop k [EQ, NEQ] parse_comparison)"

definition parse_comparison_of :: "node parse \<Rightarrow> nat \<Rightarrow> node parse" where
  "parse_comparison_of parse_term k =
     bind_p parse_term (parse_binary_loop k [LT, GT, LTE, GTE] parse_term)"

definition parse_term_of :: "node parse \<Rightarrow> nat \<Rightarrow> node parse" where
  "parse_term_of parse_factor k =
     bind_p parse_factor (parse_binary_loop k [PLUS, MINUS] parse_factor)"

definition parse_factor_of :: "node parse \<Rightarrow> nat \<Rightarrow> node parse" where
  "parse_factor_of parse_unary k =
     bind_p parse_unary (parse_binary_loop k [MULTIPLY, DIVIDE] parse_unary)"

fun parse_unary_of :: "node parse \<Rightarrow> nat \<Rightarrow> node parse" where
  "parse_unary_of parse_call 0 p = Timeout"
| "parse_unary_of parse_call (Suc k) p = (
     if cur_type p \<in> {MINUS, NOT} then
       (let op = current_token p in
        bind_p (eat (tok_type op)) (\<lambda>_. bind_p (parse_unary_of parse_call k) (\<lambda>operand.
          ret (UnaryOp (tok_value op) operand))) p)
     else parse_call p)"

fun parse_args :: "node parse \<Rightarrow> nat \<Rightarrow> node list \<Rightarrow> node list parse" where
  "parse_args parse_expression 0 args p = Timeout"
| "parse_args parse_expression (Suc k) args p =
     bind_p parse_expression (\<lambda>a p.
       if cur_type p = RPAREN then Ok (args @ [a], p)
       else bind_p (eat COMMA) (\<lambda>_. parse_args parse_expression k (args @ [a])) p) p"

fun parse_call_loop :: "node parse \<Rightarrow> nat \<Rightarrow> node \<Rightarrow> node parse" where
  "parse_call_loop parse_expression 0 expr p = Timeout"
| "parse_call_loop parse_expression (Suc k) expr p = (
     if cur_type p = LPAREN then
       bind_p (eat LPAREN) (\<lambda>_.
       bind_p (\<lambda>p. if cur_type p \<noteq> RPAREN then parse_args parse_expression k [] p
                  else Ok ([], p)) (\<lambda>args.
       bind_p (eat RPAREN) (\<lambda>_.
         case callee_of expr of
           None \<Rightarrow> (\<lambda>p. Raise AttributeError)
         | Some name \<Rightarrow> parse_call_loop parse_expression k (FunctionCall name args)))) p
     else Ok (expr, p))"

definition parse_call_of :: "node parse \<Rightarrow> node parse \<Rightarrow> nat \<Rightarrow> node parse" where
  "parse_call_of parse_primary parse_expression k =
     bind_p parse_primary (parse_call_loop parse_expression k)"

definition parse_primary_of :: "node parse \<Rightarrow> node parse" where
  "parse_primary_of parse_expression p = (
     let token = current_token p in
     if tok_type token = NUMBER then
       bind_p (eat NUMBER) (\<lambda>_ p. case py_int (tok_value token) of
           None \<Rightarrow> Raise (InvalidLiteral (tok_value token))
         | Some v \<Rightarrow> Ok (Number v, p)) p
     else if tok_type token = STRING then
       bind_p (eat STRING) (\<lambda>_. ret (String (tok_value token))) p
     else if tok_type token = TRUE then bind_p (eat TRUE) (\<lambda>_. ret (Boolean True)) p
     else if tok_type token = FALSE then bind_p (eat FALSE) (\<lambda>_. ret (Boolean False)) p
     else if tok_type token = IDENTIFIER then
       bind_p (eat IDENTIFIER) (\<lambda>_. ret (Identifier (tok_value token))) p
     else if tok_type token = LPAREN then
       bind_p (eat LPAREN) (\<lambda>_. bind_p parse_expression (\<lambda>expr.
         bind_p (eat RPAREN) (\<lambda>_. ret expr))) p
     else Raise (UnexpectedToken (tok_type token)))"

fun parse_expression :: "nat \<Rightarrow> node parse" where
  "parse_expression 0 p = Timeout"
| "parse_expression (Suc n) p =
     parse_logical_or_of (parse_logical_and_of (parse_equality_of (parse_comparison_of
       (parse_term_of (parse_factor_of (parse_unary_of
         (parse_call_of (parse_primary_of (parse_expression n)) (parse_expression n) n)
       n) n) n) n) n) n) n p"

definition parse_primary :: "nat \<Rightarrow> node parse" where
  "parse_primary n = parse_primary_of (parse_expression n)"

definition parse_call :: "nat \<Rightarrow> node parse" where
  "parse_call n = parse_call_of (parse_primary n) (parse_expression n) n"

definition parse_unary :: "nat \<Rightarrow> node parse" where
  "parse_unary n = parse_unary_of (parse_call n) n"

definition parse_factor :: "nat \<Rightarrow> node parse" where
  "parse_factor n = parse_factor_of (parse_unary n) n"

definition parse_term :: "nat \<Rightarrow> node parse" where
  "parse_term n = parse_term_of (parse_factor n) n"

definition parse_comparison :: "nat \<Rightarrow> node parse" where
  "parse_comparison n = parse_comparison_of (parse_term n) n"

definition parse_equality :: "nat \<Rightarrow> node parse" where
  "parse_equality n = parse_equality_of (parse_comparison n) n"

definition parse_logical_and :: "nat \<Rightarrow> node parse" where
  "parse_logical_and n = parse_logical_and_of (parse_equality n) n"

definition parse_logical_or :: "nat \<Rightarrow> node parse" where
  "parse_logical_or n = parse_logical_or_of (parse_logical_and n) n"

text \<open>The loop of every block: statements up to the closing brace.\<close>

fun parse_body :: "node parse \<Rightarrow> nat \<Rightarrow> node list \<Rightarrow> node list parse" where
  "parse_body parse_statement 0 body p = Timeout"
| "parse_body parse_statement (Suc k) body p = (
     if cur_type p \<noteq> RBRACE then
       bind_p parse_statement (\<lambda>stmt. parse_body parse_statement k (body @ [stmt])) p
     else Ok (body, p))"

fun parse_params :: "nat \<Rightarrow> (string \<times> string) list \<Rightarrow> (string \<times> string) list parse" where
  "parse_params 0 params p = Timeout"
| "parse_params (Suc k) params p = (
     let param_name = tok_value (current_token p) in
     bind_p (eat IDENTIFIER) (\<lambda>_. bind_p (eat COLON) (\<lambda>_ p.
       let param_type = tok_value (current_token p) in
       bind_p (eat IDENTIFIER) (\<lambda>_ p.
         if cur_type p = RPAREN then Ok (params @ [(param_name, param_type)], p)
         else bind_p (eat COMMA)
                (\<lambda>_. parse_params k (params @ [(param_name, param_type)])) p) p)) p)"

definition parse_function_def :: "node parse \<Rightarrow> nat \<Rightarrow> node parse" where
  "parse_function_def parse_statement k =
     bind_p (eat FN) (\<lambda>_ p.
       let func_name = tok_value (current_token p) in
       bind_p (eat IDENTIFIER) (\<lambda>_.
       bind_p (eat LPAREN) (\<lambda>_.
       bind_p (\<lambda>p. if cur_type p \<noteq> RPAREN then parse_params k [] p else Ok ([], p)) (\<lambda>params.
       bind_p (eat RPAREN) (\<lambda>_.
       bind_p (\<lambda>p. if cur_type p = ARROW then
                  bind_p (eat ARROW) (\<lambda>_ p.
                    let return_type = tok_value (current_token p) in
                    bind_p (eat IDENTIFIER) (\<lambda>_. ret (Some return_type)) p) p
                else Ok (None, p)) (\<lambda>return_type.
       bind_p (eat LBRACE) (\<lambda>_.
       bind_p (parse_body parse_statement k []) (\<lambda>body.
       bind_p (eat RBRACE) (\<lambda>_.
         ret (FunctionDef func_name params return_type body))))))))) p)"

definition parse_variable_decl :: "nat \<Rightarrow> bool \<Rightarrow> node parse" where
  "parse_variable_decl n mutable =
     bind_p (if mutable then eat VAR else eat LET) (\<lambda>_ p.
       let name = tok_value (current_token p) in
       bind_p (eat IDENTIFIER) (\<lambda>_.
       bind_p (\<lambda>p. if cur_type p = COLON then
                  bind_p (eat COLON) (\<lambda>_ p.
                    let var_type = tok_value (current_token p) in
                    bind_p (eat IDENTIFIER) (\<lambda>_. ret (Some var_type)) p) p
                else Ok (None, p)) (\<lambda>var_type.
       bind_p (eat ASSIGN) (\<lambda>_.
       bind_p (parse_expression n) (\<lambda>v.
       bind_p eat_semicolon (\<lambda>_.
         ret (VariableDecl mutable name var_type v)))))) p)"

definition parse_constant_decl :: "nat \<Rightarrow> node parse" where
  "parse_constant_decl n =
     bind_p (eat CONST_TOK) (\<lambda>_ p.
       let name = tok_value (current_token p) in
       bind_p (eat IDENTIFIER) (\<lambda>_.
       bind_p (eat ASSIGN) (\<lambda>_.
       bind_p (parse_expression n) (\<lambda>v.
       bind_p eat_semicolon (\<lambda>_.
         ret (ConstantDecl name v))))) p)"

definition parse_if_expr :: "node parse \<Rightarrow> nat \<Rightarrow> node parse" where
  "parse_if_expr parse_statement k =
     bind_p (eat IF) (\<lambda>_.
     bind_p (parse_expression k) (\<lambda>condition.
     bind_p (eat LBRACE) (\<lambda>_.
     bind_p (parse_body parse_statement k []) (\<lambda>then_body.
     bind_p (eat RBRACE) (\<lambda>_.
     bind_p (\<lambda>p. if cur_type p = ELSE then
                bind_p (eat ELSE) (\<lambda>_.
                bind_p (eat LBRACE) (\<lambda>_.
                bind_p (parse_body parse_statement k []) (\<lambda>else_body.
                bind_p (eat RBRACE) (\<lambda>_. ret (Some else_body))))) p
              else Ok (None, p)) (\<lambda>else_body.
       ret (IfExpr condition then_body else_body)))))))"

definition parse_while_loop :: "node parse \<Rightarrow> nat \<Rightarrow> node parse" where
  "parse_while_loop parse_statement k =
     bind_p (eat WHILE) (\<lambda>_.
     bind_p (parse_expression k) (\<lambda>condition.
     bind_p (eat LBRACE) (\<lambda>_.
     bind_p (parse_body parse_statement k []) (\<lambda>body.
     bind_p (eat RBRACE) (\<lambda>_.
       ret (WhileLoop condition body))))))"

definition parse_for_loop :: "node parse \<Rightarrow> nat \<Rightarrow> node parse" where
  "parse_for_loop parse_statement k =
     bind_p (eat FOR) (\<lambda>_ p.
       let var_name = tok_value (current_token p) in
       bind_p (eat IDENTIFIER) (\<lambda>_.
       bind_p (eat IN) (\<lambda>_.
       bind_p (parse_expression k) (\<lambda>iterable.
       bind_p (eat LBRACE) (\<lambda>_.
       bind_p (parse_body parse_statement k []) (\<lambda>body.
       bind_p (eat RBRACE) (\<lambda>_.
         ret (ForLoop var_name iterable body))))))) p)"

definition parse_return_stmt :: "nat \<Rightarrow> node parse" where
  "parse_return_stmt n =
     bind_p (eat RETURN) (\<lambda>_.
     bind_p (\<lambda>p. if cur_type p \<noteq> SEMICOLON \<and> cur_type p \<noteq> RBRACE then
                bind_p (parse_expression n) (\<lambda>v. ret (Some v)) p
              else Ok (None, p)) (\<lambda>v.
     bind_p eat_semicolon (\<lambda>_.
       ret (ReturnStmt v))))"

fun parse_match_arms :: "nat \<Rightarrow> nat \<Rightarrow> (node \<times> node) list \<Rightarrow> (node \<times> node) list parse" where
  "parse_match_arms n 0 arms p = Timeout"
| "parse_match_arms n (Suc k) arms p = (
     if cur_type p \<noteq> RBRACE then
       bind_p (\<lambda>p. if cur_type p \<in> {IDENTIFIER, NUMBER, STRING} then parse_primary n p
                  else Raise (InvalidPattern (tok_line (current_token p))
                         (tok_column (current_token p)))) (\<lambda>pattern.
       bind_p (eat ARROW) (\<lambda>_.
       bind_p (parse_expression n) (\<lambda>result p.
         if cur_type p = COMMA then
           bind_p (eat COMMA) (\<lambda>_. parse_match_arms n k (arms @ [(pattern, result)])) p
         else if cur_type p = RBRACE then Ok (arms @ [(pattern, result)], p)
         else Raise (ExpectedCommaOrBrace (tok_line (current_token p))
                (tok_column (current_token p)))))) p
     else Ok (arms, p))"

definition parse_match_expr :: "nat \<Rightarrow> node parse" where
  "parse_match_expr n =
     bind_p (eat MATCH) (\<lambda>_.
     bind_p (parse_expression n) (\<lambda>expr.
     bind_p (eat LBRACE) (\<lambda>_.
     bind_p (parse_match_arms n n []) (\<lambda>arms.
     bind_p (eat RBRACE) (\<lambda>_.
       ret (MatchExpr expr arms))))))"

text \<open>
  The lookahead of \<open>parse_statement\<close> on a leading identifier: the next token is read
  from the lexer, then \<open>pos\<close> and \<open>current_char\<close> are put back and the current token is
  rebuilt from the identifier's name and the lexer's line and column.
\<close>

definition peek_next_token :: "token parse" where
  "peek_next_token p =
     (let ident_name = tok_value (current_token p);
          next_pos = pos (plexer p);
          next_char = current_char (plexer p)
      in case get_next_token (plexer p) of
           Inl e \<Rightarrow> Raise e
         | Inr (next_token, lx') \<Rightarrow>
             (let lx'' = lx'\<lparr>pos := next_pos, current_char := next_char\<rparr>
              in Ok (next_token,
                     p\<lparr>plexer := lx'',
                       current_token := Token IDENTIFIER ident_name (line lx'') (column lx'')\<rparr>)))"

definition parse_statement_of :: "node parse \<Rightarrow> nat \<Rightarrow> node parse" where
  "parse_statement_of parse_statement n p = (
     let token_type = cur_type p in
     if token_type = FN then parse_function_def parse_statement n p
     else if token_type = LET then parse_variable_decl n False p
     else if token_type = VAR then parse_variable_decl n True p
     else if token_type = CONST_TOK then parse_constant_decl n p
     else if token_type = IF then parse_if_expr parse_statement n p
     else if token_type = WHILE then parse_while_loop parse_statement n p
     else if token_type = FOR then parse_for_loop parse_statement n p
     else if token_type = RETURN then parse_return_stmt n p
     else if token_type = MATCH then parse_match_expr n p
     else if token_type = IDENTIFIER then
       (let ident_name = tok_value (current_token p) in
        bind_p peek_next_token (\<lambda>next_token.
          if tok_type next_token = ASSIGN then
            bind_p (eat IDENTIFIER) (\<lambda>_.
            bind_p (eat ASSIGN) (\<lambda>_.
            bind_p (parse_expression n) (\<lambda>v.
            bind_p eat_semicolon (\<lambda>_.
              ret (Assignment ident_name v)))))
          else
            bind_p (parse_expression n) (\<lambda>expr.
            bind_p eat_semicolon (\<lambda>_. ret expr))) p)
     else
       bind_p (parse_expression n) (\<lambda>expr.
       bind_p eat_semicolon (\<lambda>_. ret expr)) p)"

fun parse_statement :: "nat \<Rightarrow> node parse" where
  "parse_statement 0 p = Timeout"
| "parse_statement (Suc n) p = parse_statement_of (parse_statement n) n p"

fun parse_program_loop :: "nat \<Rightarrow> nat \<Rightarrow> node list \<Rightarrow> node list parse" where
  "parse_program_loop n 0 statements p = Timeout"
| "parse_program_loop n (Suc k) statements p = (
     if cur_type p \<noteq> EOF then
       bind_p (parse_statement n) (\<lambda>stmt. parse_program_loop n k (statements @ [stmt])) p
     else Ok (statements, p))"

definition parse_program :: "nat \<Rightarrow> node parse" where
  "parse_program n = bind_p (parse_program_loop n n []) (\<lambda>statements. ret (Program statements))"

text \<open>\<open>Parser(Lexer(source)).parse_program()\<close>\<close>

definition parse_source :: "nat \<Rightarrow> string \<Rightarrow> (parse_error, node) outcome" where
  "parse_source n source =
     (case Parser (Lexer source) of
        Ok p \<Rightarrow> (case parse_program n p of
                   Ok (ast, p') \<Rightarrow> Ok ast
                 | Raise e \<Rightarrow> Raise e
                 | Timeout \<Rightarrow> Timeout
                 | Unmodelled \<Rightarrow> Unmodelled)
      | Raise e \<Rightarrow> Raise e
      | Timeout \<Rightarrow> Timeout
      | Unmodelled \<Rightarrow> Unmodelled)"

section \<open>Run-time values\<close>

text \<open>
  A float is the number it denotes, or one of the special values; the model never computes
  one (see \<open>Unmodelled\<close>), it only compares them. A function value is the \<open>FunctionDef\<close>
  node itself, as \<open>visit_FunctionDef\<close> stores it.
\<close>

datatype pyfloat = Finite real | PosInf | NegInf | NaN

datatype builtin = Println | Sqrt

datatype pyvalue =
    VInt int
  | VBool bool
  | VFloat pyfloat
  | VStr string
  | VNone
  | VList "pyvalue list"
  | VBuiltin builtin
  | VNode node

datatype runtime_error =
    NameError_Undefined callee
  | NameError_NotCallable callee
  | ZeroDivisionError
  | ValueError_UnknownOperator string
  | ValueError_UnknownUnaryOperator string
  | ValueError_Arity callee nat nat
  | ValueError_NoMatch pyvalue
  | ValueError_MathDomain
  | TypeError_CannotIterate pyvalue
  | TypeError

type_synonym result = "(runtime_error, pyvalue) outcome"

fun as_int :: "pyvalue \<Rightarrow> int option" where
  "as_int (VInt i) = Some i"
| "as_int (VBool b) = Some (if b then 1 else 0)"
| "as_int _ = None"

fun as_float :: "pyvalue \<Rightarrow> pyfloat option" where
  "as_float (VInt i) = Some (Finite (of_int i))"
| "as_float (VBool b) = Some (Finite (if b then 1 else 0))"
| "as_float (VFloat f) = Some f"
| "as_float _ = None"

fun float_eq :: "pyfloat \<Rightarrow> pyfloat \<Rightarrow> bool" where
  "float_eq (Finite a) (Finite b) = (a = b)"
| "float_eq PosInf PosInf = True"
| "float_eq NegInf NegInf = True"
| "float_eq _ _ = False"

fun float_lt :: "pyfloat \<Rightarrow> pyfloat \<Rightarrow> bool" where
  "float_lt NaN _ = False"
| "float_lt _ NaN = False"
| "float_lt (Finite a) (Finite b) = (a < b)"
| "float_lt NegInf NegInf = False"
| "float_lt NegInf _ = True"
| "float_lt _ NegInf = False"
| "float_lt PosInf _ = False"
| "float_lt _ PosInf = True"

text \<open>Truth value testing, as \<open>if\<close>, \<open>while\<close>, \<open>and\<close>, \<open>or\<close> and \<open>not\<close> apply it.\<close>

fun truthy :: "pyvalue \<Rightarrow> bool" where
  "truthy (VInt i) = (i \<noteq> 0)"
| "truthy (VBool b) = b"
| "truthy (VFloat f) = (f \<noteq> Finite 0)"
| "truthy (VStr s) = (s \<noteq> [])"
| "truthy VNone = False"
| "truthy (VList xs) = (xs \<noteq> [])"
| "truthy (VBuiltin f) = True"
| "truthy (VNode n) = True"

text \<open>
  \<open>a == b\<close>. It never raises. Two nodes, or two lists of one length, are compared through
  the identity of objects, which the values here do not carry: no answer then.
\<close>

fun py_eq :: "pyvalue \<Rightarrow> pyvalue \<Rightarrow> bool option" where
  "py_eq (VStr a) (VStr b) = Some (a = b)"
| "py_eq VNone VNone = Some True"
| "py_eq (VBuiltin f) (VBuiltin g) = Some (f = g)"
| "py_eq (VNode a) (VNode b) = (if a = b then None else Some False)"
| "py_eq (VList a) (VList b) =
     (if length a \<noteq> length b then Some False else if a = [] then Some True else None)"
| "py_eq a b =
     (case (as_int a, as_int b) of
        (Some i, Some j) \<Rightarrow> Some (i = j)
      | _ \<Rightarrow> (case (as_float a, as_float b) of
                 (Some x, Some y) \<Rightarrow> Some (float_eq x y)
               | _ \<Rightarrow> Some False))"

fun str_lt :: "string \<Rightarrow> string \<Rightarrow> bool" where
  "str_lt [] [] = False"
| "str_lt [] (y # ys) = True"
| "str_lt (x # xs) [] = False"
| "str_lt (x # xs) (y # ys) = (cp x < cp y \<or> (x = y \<and> str_lt xs ys))"

text \<open>\<open>a < b\<close>; the other three orderings are written with it as Python computes them.\<close>

definition py_lt :: "pyvalue \<Rightarrow> pyvalue \<Rightarrow> result" where
  "py_lt a b =
     (case (as_int a, as_int b) of
        (Some i, Some j) \<Rightarrow> Ok (VBool (i < j))
      | _ \<Rightarrow> (case (as_float a, as_float b) of
          (Some x, Some y) \<Rightarrow> Ok (VBool (float_lt x y))
        | _ \<Rightarrow> (case (a, b) of
            (VStr s, VStr t) \<Rightarrow> Ok (VBool (str_lt s t))
          | (VList xs, VList ys) \<Rightarrow> Unmodelled
          | _ \<Rightarrow> Raise TypeError)))"

definition py_le :: "pyvalue \<Rightarrow> pyvalue \<Rightarrow> result" where
  "py_le a b =
     (case (as_int a, as_int b) of
        (Some i, Some j) \<Rightarrow> Ok (VBool (i \<le> j))
      | _ \<Rightarrow> (case (as_float a, as_float b) of
          (Some x, Some y) \<Rightarrow> Ok (VBool (float_lt x y \<or> float_eq x y))
        | _ \<Rightarrow> (case (a, b) of
            (VStr s, VStr t) \<Rightarrow> Ok (VBool (str_lt s t \<or> s = t))
          | (VList xs, VList ys) \<Rightarrow> Unmodelled
          | _ \<Rightarrow> Raise TypeError)))"

definition is_float :: "pyvalue \<Rightarrow> bool" where
  "is_float v = (case v of VFloat f \<Rightarrow> True | _ \<Rightarrow> False)"

definition is_number :: "pyvalue \<Rightarrow> bool" where
  "is_number v = (as_float v \<noteq> None)"

text \<open>
  Arithmetic of two numbers: on integers (booleans count as 0 and 1) the result is the
  integer; with a float among the operands it is a float, which is not computed.
\<close>

definition arith :: "(int \<Rightarrow> int \<Rightarrow> int) \<Rightarrow> pyvalue \<Rightarrow> pyvalue \<Rightarrow> result" where
  "arith f a b =
     (case (as_int a, as_int b) of
        (Some i, Some j) \<Rightarrow> Ok (VInt (f i j))
      | _ \<Rightarrow> if is_number a \<and> is_number b then Unmodelled else Raise TypeError)"

definition repeat :: "int \<Rightarrow> 'a list \<Rightarrow> 'a list" where
  "repeat n xs = concat (replicate (nat n) xs)"

definition py_add :: "pyvalue \<Rightarrow> pyvalue \<Rightarrow> result" where
  "py_add a b =
     (case (a, b) of
        (VStr s, VStr t) \<Rightarrow> Ok (VStr (s @ t))
      | (VList xs, VList ys) \<Rightarrow> Ok (VList (xs @ ys))
      | _ \<Rightarrow> arith (+) a b)"

definition py_sub :: "pyvalue \<Rightarrow> pyvalue \<Rightarrow> result" where
  "py_sub a b = arith (-) a b"

definition py_mul :: "pyvalue \<Rightarrow> pyvalue \<Rightarrow> result" where
  "py_mul a b =
     (case (a, as_int b) of
        (VStr s, Some n) \<Rightarrow> Ok (VStr (repeat n s))
      | (VList xs, Some n) \<Rightarrow> Ok (VList (repeat n xs))
      | _ \<Rightarrow> (case (as_int a, b) of
          (Some n, VStr s) \<Rightarrow> Ok (VStr (repeat n s))
        | (Some n, VList xs) \<Rightarrow> Ok (VList (repeat n xs))
        | _ \<Rightarrow> arith (*) a b))"

text \<open>\<open>a / b\<close>: true division, whose quotient is always a float.\<close>

definition py_truediv :: "pyvalue \<Rightarrow> pyvalue \<Rightarrow> result" where
  "py_truediv a b =
     (if is_number a \<and> is_number b then
        (if py_eq b (VInt 0) = Some True then Raise ZeroDivisionError else Unmodelled)
      else Raise TypeError)"

text \<open>\<open>a % b\<close>: the remainder with the sign of the divisor; with a string on the left it is
  string formatting.\<close>

definition py_mod :: "pyvalue \<Rightarrow> pyvalue \<Rightarrow> result" where
  "py_mod a b =
     (case a of
        VStr s \<Rightarrow> Unmodelled
      | _ \<Rightarrow> (case (as_int a, as_int b) of
          (Some i, Some j) \<Rightarrow> if j = 0 then Raise ZeroDivisionError else Ok (VInt (i mod j))
        | _ \<Rightarrow> if is_number a \<and> is_number b then
                 (if py_eq b (VInt 0) = Some True then Raise ZeroDivisionError else Unmodelled)
               else Raise TypeError))"

definition py_neg :: "pyvalue \<Rightarrow> result" where
  "py_neg a =
     (case as_int a of
        Some i \<Rightarrow> Ok (VInt (- i))
      | None \<Rightarrow> if is_float a then Unmodelled else Raise TypeError)"

text \<open>The result of a comparison that may have no answer in the model.\<close>

definition of_bool_option :: "bool option \<Rightarrow> result" where
  "of_bool_option r = (case r of Some b \<Rightarrow> Ok (VBool b) | None \<Rightarrow> Unmodelled)"

section \<open>Environments\<close>

text \<open>
  \<open>Environment\<close> objects live in a store, addressed by their index; \<open>parent\<close> is the address
  of the enclosing environment. The interpreter's \<open>global_env\<close> attribute is the address of
  the current environment. Standard output is the list of the argument tuples that
  \<open>print\<close> was called with.
\<close>

record environment =
  vars :: "(string \<times> pyvalue) list"
  parent :: "nat option"

record interpreter =
  store :: "environment list"
  global_env :: nat
  stdout :: "pyvalue list list"

definition Environment :: "nat option \<Rightarrow> interpreter \<Rightarrow> nat \<times> interpreter" where
  "Environment par st =
     (length (store st), st\<lparr>store := store st @ [\<lparr>vars = [], parent = par\<rparr>]\<rparr>)"

definition env_define :: "nat \<Rightarrow> string \<Rightarrow> pyvalue \<Rightarrow> interpreter \<Rightarrow> interpreter" where
  "env_define a name v st =
     st\<lparr>store := (store st)[a := (store st ! a)\<lparr>vars := AList.update name v (vars (store st ! a))\<rparr>]\<rparr>"

text \<open>
  \<open>name in self.vars\<close>: the keys are strings, so only a string name can be found.
\<close>

definition lookup :: "environment \<Rightarrow> callee \<Rightarrow> pyvalue option" where
  "lookup e name = (case name of NameStr s \<Rightarrow> map_of (vars e) s | _ \<Rightarrow> None)"

text \<open>
  \<open>get\<close> and \<open>assign\<close> (here \<open>env_get\<close>, \<open>env_assign\<close>; \<open>define\<close> is \<open>env_define\<close>) walk the chain of parents. A parent is created before its children,
  so its address is smaller; a store that breaks this (none the interpreter builds) would
  send the walk around a cycle, which is \<open>Timeout\<close>.
\<close>

function env_get :: "interpreter \<Rightarrow> nat \<Rightarrow> callee \<Rightarrow> result" where
  "env_get st a name =
     (if a \<ge> length (store st) then Timeout
      else case lookup (store st ! a) name of
        Some v \<Rightarrow> Ok v
      | None \<Rightarrow> (case parent (store st ! a) of
          Some p \<Rightarrow> if p < a then env_get st p name else Timeout
        | None \<Rightarrow> Raise (NameError_Undefined name)))"
  by pat_completeness auto
termination
  by (relation "measure (\<lambda>(st, a, name). a)") auto

function env_assign :: "interpreter \<Rightarrow> nat \<Rightarrow> string \<Rightarrow> pyvalue
    \<Rightarrow> (runtime_error, unit) outcome \<times> interpreter" where
  "env_assign st a name v =
     (if a \<ge> length (store st) then (Timeout, st)
      else case lookup (store st ! a) (NameStr name) of
        Some old \<Rightarrow> (Ok (), env_define a name v st)
      | None \<Rightarrow> (case parent (store st ! a) of
          Some p \<Rightarrow> if p < a then env_assign st p name v else (Timeout, st)
        | None \<Rightarrow> (Raise (NameError_Undefined (NameStr name)), st)))"
  by pat_completeness auto
termination
  by (relation "measure (\<lambda>(st, a, name, v). a)") auto

declare env_get.simps [simp del] env_assign.simps [simp del]

definition Interpreter :: interpreter where
  "Interpreter =
     \<lparr>store = [\<lparr>vars = [(''println'', VBuiltin Println), (''sqrt'', VBuiltin Sqrt)],
                 parent = None\<rparr>],
      global_env = 0, stdout = []\<rparr>"

section \<open>The interpreter of clarity\_interpreter\<close>

type_synonym visitor = "node \<Rightarrow> interpreter \<Rightarrow> result \<times> interpreter"

text \<open>
  The visitor methods call \<open>self.visit\<close> on their children; each is written with \<open>visit\<close>
  as a parameter, and \<open>visit\<close> itself ties the knot by recursion on the budget.
\<close>

text \<open>\<open>for stmt in stmts: result = self.visit(stmt)\<close>, from a given \<open>result\<close>.\<close>

fun exec_stmts :: "visitor \<Rightarrow> pyvalue \<Rightarrow> node list \<Rightarrow> interpreter \<Rightarrow> result \<times> interpreter" where
  "exec_stmts visit result [] st = (Ok result, st)"
| "exec_stmts visit result (stmt # stmts) st =
     (case visit stmt st of
        (Ok v, st1) \<Rightarrow> exec_stmts visit v stmts st1
      | (r, st1) \<Rightarrow> (r, st1))"

definition visit_Program :: "visitor \<Rightarrow> node list \<Rightarrow> interpreter \<Rightarrow> result \<times> interpreter" where
  "visit_Program visit statements st = exec_stmts visit VNone statements st"

definition visit_FunctionDef ::
  "string \<Rightarrow> (string \<times> string) list \<Rightarrow> string option \<Rightarrow> node list \<Rightarrow> interpreter
    \<Rightarrow> result \<times> interpreter" where
  "visit_FunctionDef name params return_type body st =
     (Ok VNone, env_define (global_env st) name (VNode (FunctionDef name params return_type body)) st)"

definition visit_VariableDecl :: "visitor \<Rightarrow> string \<Rightarrow> node \<Rightarrow> interpreter \<Rightarrow> result \<times> interpreter" where
  "visit_VariableDecl visit name v st =
     (case visit v st of
        (Ok val, st1) \<Rightarrow> (Ok val, env_define (global_env st1) name val st1)
      | (r, st1) \<Rightarrow> (r, st1))"

definition visit_ConstantDecl :: "visitor \<Rightarrow> string \<Rightarrow> node \<Rightarrow> interpreter \<Rightarrow> result \<times> interpreter" where
  "visit_ConstantDecl visit name v st =
     (case visit v st of
        (Ok val, st1) \<Rightarrow> (Ok val, env_define (global_env st1) name val st1)
      | (r, st1) \<Rightarrow> (r, st1))"

definition visit_Assignment :: "visitor \<Rightarrow> string \<Rightarrow> node \<Rightarrow> interpreter \<Rightarrow> result \<times> interpreter" where
  "visit_Assignment visit name v st =
     (case visit v st of
        (Ok val, st1) \<Rightarrow>
          (case env_assign st1 (global_env st1) name val of
             (Ok u, st2) \<Rightarrow> (Ok val, st2)
           | (Raise e, st2) \<Rightarrow> (Raise e, st2)
           | (Timeout, st2) \<Rightarrow> (Timeout, st2)
           | (Unmodelled, st2) \<Rightarrow> (Unmodelled, st2))
      | (r, st1) \<Rightarrow> (r, st1))"

definition binary_op :: "string \<Rightarrow> pyvalue \<Rightarrow> pyvalue \<Rightarrow> result" where
  "binary_op operator left right =
     (if operator = ''+'' then py_add left right
      else if operator = ''-'' then py_sub left right
      else if operator = ''*'' then py_mul left right
      else if operator = ''/'' then
        (case py_eq right (VInt 0) of
           Some True \<Rightarrow> Raise ZeroDivisionError
         | Some False \<Rightarrow> py_truediv left right
         | None \<Rightarrow> Unmodelled)
      else if operator = ''%'' then py_mod left right
      else if operator = ''=='' then of_bool_option (py_eq left right)
      else if operator = ''!='' then of_bool_option (map_option Not (py_eq left right))
      else if operator = ''<'' then py_lt left right
      else if operator = ''>'' then py_lt right left
      else if operator = ''<='' then py_le left right
      else if operator = ''>='' then py_le right left
      else if operator = ''&&'' then Ok (if truthy left then right else left)
      else if operator = ''||'' then Ok (if truthy left then left else right)
      else Raise (ValueError_UnknownOperator operator))"

definition visit_BinaryOp ::
  "visitor \<Rightarrow> node \<Rightarrow> string \<Rightarrow> node \<Rightarrow> interpreter \<Rightarrow> result \<times> interpreter" where
  "visit_BinaryOp visit left operator right st =
     (case visit left st of
        (Ok l, st1) \<Rightarrow>
          (case visit right st1 of
             (Ok r, st2) \<Rightarrow> (binary_op operator l r, st2)
           | (r, st2) \<Rightarrow> (r, st2))
      | (r, st1) \<Rightarrow> (r, st1))"

definition unary_op :: "string \<Rightarrow> pyvalue \<Rightarrow> result" where
  "unary_op operator operand =
     (if operator = ''-'' then py_neg operand
      else if operator = ''!'' then Ok (VBool (\<not> truthy operand))
      else Raise (ValueError_UnknownUnaryOperator operator))"

definition visit_UnaryOp :: "visitor \<Rightarrow> string \<Rightarrow> node \<Rightarrow> interpreter \<Rightarrow> result \<times> interpreter" where
  "visit_UnaryOp visit operator operand st =
     (case visit operand st of
        (Ok v, st1) \<Rightarrow> (unary_op operator v, st1)
      | (r, st1) \<Rightarrow> (r, st1))"

text \<open>
  \<open>self.global_env = Environment(parent=self.global_env)\<close>: a new environment whose parent
  is the current one becomes the current one.
\<close>

definition push_env :: "interpreter \<Rightarrow> interpreter" where
  "push_env st = (case Environment (Some (global_env st)) st of (a, st1) \<Rightarrow> st1\<lparr>global_env := a\<rparr>)"

text \<open>
  A block in its own scope: \<open>env_before\<close> is saved, the child environment is pushed, the
  statements run, and the \<open>finally\<close> clause puts \<open>env_before\<close> back whatever the outcome.
\<close>

definition scoped_block :: "visitor \<Rightarrow> pyvalue \<Rightarrow> node list \<Rightarrow> interpreter \<Rightarrow> result \<times> interpreter" where
  "scoped_block visit result stmts st =
     (let env_before = global_env st in
      case exec_stmts visit result stmts (push_env st) of
        (r, st1) \<Rightarrow> (r, st1\<lparr>global_env := env_before\<rparr>))"

definition visit_IfExpr ::
  "visitor \<Rightarrow> node \<Rightarrow> node list \<Rightarrow> node list option \<Rightarrow> interpreter \<Rightarrow> result \<times> interpreter" where
  "visit_IfExpr visit condition then_branch else_branch st =
     (case visit condition st of
        (Ok c, st1) \<Rightarrow>
          if truthy c then scoped_block visit VNone then_branch st1
          else (case else_branch of
                  Some (stmt # stmts) \<Rightarrow> scoped_block visit VNone (stmt # stmts) st1
                | _ \<Rightarrow> (Ok VNone, st1))
      | (r, st1) \<Rightarrow> (r, st1))"

fun while_loop ::
  "nat \<Rightarrow> visitor \<Rightarrow> node \<Rightarrow> node list \<Rightarrow> pyvalue \<Rightarrow> interpreter \<Rightarrow> result \<times> interpreter" where
  "while_loop 0 visit condition body result st = (Timeout, st)"
| "while_loop (Suc k) visit condition body result st =
     (case visit condition st of
        (Ok c, st1) \<Rightarrow>
          if truthy c then
            (case scoped_block visit result body st1 of
               (Ok v, st2) \<Rightarrow> while_loop k visit condition body v st2
             | (r, st2) \<Rightarrow> (r, st2))
          else (Ok result, st1)
      | (r, st1) \<Rightarrow> (r, st1))"

definition visit_WhileLoop ::
  "nat \<Rightarrow> visitor \<Rightarrow> node \<Rightarrow> node list \<Rightarrow> interpreter \<Rightarrow> result \<times> interpreter" where
  "visit_WhileLoop k visit condition body st = while_loop k visit condition body VNone st"

fun for_loop ::
  "visitor \<Rightarrow> string \<Rightarrow> node list \<Rightarrow> pyvalue \<Rightarrow> pyvalue list \<Rightarrow> interpreter
    \<Rightarrow> result \<times> interpreter" where
  "for_loop visit variable body result [] st = (Ok result, st)"
| "for_loop visit variable body result (item # items) st =
     (let env_before = global_env st;
          st1 = push_env st;
          st2 = env_define (global_env st1) variable item st1
      in case exec_stmts visit result body st2 of
           (r, st3) \<Rightarrow>
             (let st4 = st3\<lparr>global_env := env_before\<rparr>
              in case r of
                   Ok v \<Rightarrow> for_loop visit variable body v items st4
                 | _ \<Rightarrow> (r, st4)))"

definition visit_ForLoop ::
  "visitor \<Rightarrow> string \<Rightarrow> node \<Rightarrow> node list \<Rightarrow> interpreter \<Rightarrow> result \<times> interpreter" where
  "visit_ForLoop visit variable iterable body st =
     (case visit iterable st of
        (Ok it, st1) \<Rightarrow>
          (case it of
             VList items \<Rightarrow> for_loop visit variable body VNone items st1
           | _ \<Rightarrow> (Raise (TypeError_CannotIterate it), st1))
      | (r, st1) \<Rightarrow> (r, st1))"

definition visit_ReturnStmt :: "visitor \<Rightarrow> node option \<Rightarrow> interpreter \<Rightarrow> result \<times> interpreter" where
  "visit_ReturnStmt visit v st = (case v of Some e \<Rightarrow> visit e st | None \<Rightarrow> (Ok VNone, st))"

text \<open>\<open>[self.visit(arg) for arg in node.args]\<close>\<close>

fun eval_args ::
  "visitor \<Rightarrow> node list \<Rightarrow> interpreter \<Rightarrow> (runtime_error, pyvalue list) outcome \<times> interpreter" where
  "eval_args visit [] st = (Ok [], st)"
| "eval_args visit (arg # args) st =
     (case visit arg st of
        (Ok v, st1) \<Rightarrow>
          (case eval_args visit args st1 of
             (Ok vs, st2) \<Rightarrow> (Ok (v # vs), st2)
           | (r, st2) \<Rightarrow> (r, st2))
      | (Raise e, st1) \<Rightarrow> (Raise e, st1)
      | (Timeout, st1) \<Rightarrow> (Timeout, st1)
      | (Unmodelled, st1) \<Rightarrow> (Unmodelled, st1))"

definition py_sqrt :: "pyvalue \<Rightarrow> result" where
  "py_sqrt v =
     (case v of
        VFloat (Finite r) \<Rightarrow> if r < 0 then Raise ValueError_MathDomain else Unmodelled
      | VFloat NegInf \<Rightarrow> Raise ValueError_MathDomain
      | VFloat f \<Rightarrow> Unmodelled
      | _ \<Rightarrow> (case as_int v of
                 Some i \<Rightarrow> if - (2 ^ 1023) < i \<and> i < 0 then Raise ValueError_MathDomain
                           else Unmodelled
               | None \<Rightarrow> Raise TypeError))"

definition call_builtin :: "builtin \<Rightarrow> pyvalue list \<Rightarrow> interpreter \<Rightarrow> result \<times> interpreter" where
  "call_builtin f args st =
     (case f of
        Println \<Rightarrow> (Ok VNone, st\<lparr>stdout := stdout st @ [args]\<rparr>)
      | Sqrt \<Rightarrow> (case args of [v] \<Rightarrow> (py_sqrt v, st) | _ \<Rightarrow> (Raise TypeError, st)))"

definition is_ReturnStmt :: "node \<Rightarrow> bool" where
  "is_ReturnStmt stmt = (case stmt of ReturnStmt v \<Rightarrow> True | _ \<Rightarrow> False)"

text \<open>
  The body of a called function: the statements in order, the call returning at once
  after a statement that is itself a \<open>ReturnStmt\<close>.
\<close>

fun call_body :: "visitor \<Rightarrow> pyvalue \<Rightarrow> node list \<Rightarrow> interpreter \<Rightarrow> result \<times> interpreter" where
  "call_body visit result [] st = (Ok result, st)"
| "call_body visit result (stmt # stmts) st =
     (case visit stmt st of
        (Ok v, st1) \<Rightarrow> if is_ReturnStmt stmt then (Ok v, st1) else call_body visit v stmts st1
      | (r, st1) \<Rightarrow> (r, st1))"

text \<open>\<open>{param[0]: val for param, val in zip(func_def.params, arg_values)}\<close>\<close>

definition arg_bindings :: "(string \<times> string) list \<Rightarrow> pyvalue list \<Rightarrow> (string \<times> pyvalue) list" where
  "arg_bindings params arg_values =
     foldl (\<lambda>d (param, val). AList.update (fst param) val d) [] (zip params arg_values)"

definition define_all :: "(string \<times> pyvalue) list \<Rightarrow> interpreter \<Rightarrow> interpreter" where
  "define_all bindings st = foldl (\<lambda>s (name, v). env_define (global_env s) name v s) st bindings"

definition visit_FunctionCall ::
  "visitor \<Rightarrow> callee \<Rightarrow> node list \<Rightarrow> interpreter \<Rightarrow> result \<times> interpreter" where
  "visit_FunctionCall visit name args st =
     (case env_get st (global_env st) name of
        Ok func_def \<Rightarrow>
          (case func_def of
             VBuiltin f \<Rightarrow>
               (case eval_args visit args st of
                  (Ok arg_values, st1) \<Rightarrow> call_builtin f arg_values st1
                | (Raise e, st1) \<Rightarrow> (Raise e, st1)
                | (Timeout, st1) \<Rightarrow> (Timeout, st1)
                | (Unmodelled, st1) \<Rightarrow> (Unmodelled, st1))
           | VNode (FunctionDef fname params return_type body) \<Rightarrow>
               if length args \<noteq> length params
               then (Raise (ValueError_Arity name (length params) (length args)), st)
               else
                 (case eval_args visit args st of
                    (Ok arg_values, st1) \<Rightarrow>
                      (let old_env = global_env st1;
                           st2 = define_all (arg_bindings params arg_values) (push_env st1)
                       in case call_body visit VNone body st2 of
                            (r, st3) \<Rightarrow> (r, st3\<lparr>global_env := old_env\<rparr>))
                  | (Raise e, st1) \<Rightarrow> (Raise e, st1)
                  | (Timeout, st1) \<Rightarrow> (Timeout, st1)
                  | (Unmodelled, st1) \<Rightarrow> (Unmodelled, st1))
           | _ \<Rightarrow> (Raise (NameError_NotCallable name), st))
      | Raise e \<Rightarrow> (Raise e, st)
      | Timeout \<Rightarrow> (Timeout, st)
      | Unmodelled \<Rightarrow> (Unmodelled, st))"

definition visit_Identifier :: "string \<Rightarrow> interpreter \<Rightarrow> result \<times> interpreter" where
  "visit_Identifier name st = (env_get st (global_env st) (NameStr name), st)"

definition is_literal :: "node \<Rightarrow> bool" where
  "is_literal pattern =
     (case pattern of Number v \<Rightarrow> True | String v \<Rightarrow> True | Boolean v \<Rightarrow> True | _ \<Rightarrow> False)"

definition is_Identifier :: "node \<Rightarrow> bool" where
  "is_Identifier pattern = (case pattern of Identifier name \<Rightarrow> True | _ \<Rightarrow> False)"

fun match_arms ::
  "visitor \<Rightarrow> pyvalue \<Rightarrow> (node \<times> node) list \<Rightarrow> interpreter \<Rightarrow> result \<times> interpreter" where
  "match_arms visit matched_value [] st = (Raise (ValueError_NoMatch matched_value), st)"
| "match_arms visit matched_value ((pattern, result_expr) # arms) st =
     (if is_literal pattern then
        (case visit pattern st of
           (Ok pattern_value, st1) \<Rightarrow>
             (case py_eq matched_value pattern_value of
                Some True \<Rightarrow> visit result_expr st1
              | Some False \<Rightarrow> match_arms visit matched_value arms st1
              | None \<Rightarrow> (Unmodelled, st1))
         | (r, st1) \<Rightarrow> (r, st1))
      else if is_Identifier pattern then visit result_expr st
      else match_arms visit matched_value arms st)"

definition visit_MatchExpr ::
  "visitor \<Rightarrow> node \<Rightarrow> (node \<times> node) list \<Rightarrow> interpreter \<Rightarrow> result \<times> interpreter" where
  "visit_MatchExpr visit expr arms st =
     (case visit expr st of
        (Ok matched_value, st1) \<Rightarrow> match_arms visit matched_value arms st1
      | (r, st1) \<Rightarrow> (r, st1))"

fun visit :: "nat \<Rightarrow> node \<Rightarrow> interpreter \<Rightarrow> result \<times> interpreter" where
  "visit 0 node st = (Timeout, st)"
| "visit (Suc n) node st =
     (case node of
        Program statements \<Rightarrow> visit_Program (visit n) statements st
      | FunctionDef name params return_type body \<Rightarrow>
          visit_FunctionDef name params return_type body st
      | VariableDecl mutable name var_type v \<Rightarrow> visit_VariableDecl (visit n) name v st
      | ConstantDecl name v \<Rightarrow> visit_ConstantDecl (visit n) name v st
      | Assignment name v \<Rightarrow> visit_Assignment (visit n) name v st
      | BinaryOp left operator right \<Rightarrow> visit_BinaryOp (visit n) left operator right st
      | UnaryOp operator operand \<Rightarrow> visit_UnaryOp (visit n) operator operand st
      | IfExpr condition then_branch else_branch \<Rightarrow>
          visit_IfExpr (visit n) condition then_branch else_branch st
      | WhileLoop condition body \<Rightarrow> visit_WhileLoop n (visit n) condition body st
      | ForLoop variable iterable body \<Rightarrow> visit_ForLoop (visit n) variable iterable body st
      | ReturnStmt v \<Rightarrow> visit_ReturnStmt (visit n) v st
      | FunctionCall name args \<Rightarrow> visit_FunctionCall (visit n) name args st
      | Identifier name \<Rightarrow> visit_Identifier name st
      | Number v \<Rightarrow> (Ok (VInt v), st)
      | String v \<Rightarrow> (Ok (VStr v), st)
      | Boolean v \<Rightarrow> (Ok (VBool v), st)
      | MatchExpr expr arms \<Rightarrow> visit_MatchExpr (visit n) expr arms st)"

definition interpret_ast :: "nat \<Rightarrow> node \<Rightarrow> interpreter \<Rightarrow> result \<times> interpreter" where
  "interpret_ast n ast st = visit n ast st"

text \<open>
  \<open>run_file\<close> without the file: lex, parse and interpret a source text in a fresh
  interpreter.
\<close>

definition run_source :: "nat \<Rightarrow> string \<Rightarrow> (parse_error, result \<times> interpreter) outcome" where
  "run_source n source =
     (case parse_source n source of
        Ok ast \<Rightarrow> Ok (interpret_ast n ast Interpreter)
      | Raise e \<Rightarrow> Raise e
      | Timeout \<Rightarrow> Timeout
      | Unmodelled \<Rightarrow> Unmodelled)"

section \<open>SHA-256 and the hexadecimal digest\<close>

text \<open>
  \<open>hashlib.sha256(data).hexdigest()\<close>, after FIPS 180-4: the message is padded to whole
  blocks of 64 bytes, each block is expanded into 64 words and mixed into the eight words
  of the state. 
\<close>

type_synonym w32 = "32 word"

definition K256 :: "w32 list" where
  "K256 =
     [
      0x428a2f98, 0x71374491, 0xb5c0fbcf, 0xe9b5dba5, 0x3956c25b, 0x59f111f1,
      0x923f82a4, 0xab1c5ed5, 0xd807aa98, 0x12835b01, 0x243185be, 0x550c7dc3,
      0x72be5d74, 0x80deb1fe, 0x9bdc06a7, 0xc19bf174, 0xe49b69c1, 0xefbe4786,
      0x0fc19dc6, 0x240ca1cc, 0x2de92c6f, 0x4a7484aa, 0x5cb0a9dc, 0x76f988da,
      0x983e5152, 0xa831c66d, 0xb00327c8, 0xbf597fc7, 0xc6e00bf3, 0xd5a79147,
      0x06ca6351, 0x14292967, 0x27b70a85, 0x2e1b2138, 0x4d2c6dfc, 0x53380d13,
      0x650a7354, 0x766a0abb, 0x81c2c92e, 0x92722c85, 0xa2bfe8a1, 0xa81a664b,
      0xc24b8b70, 0xc76c51a3, 0xd192e819, 0xd6990624, 0xf40e3585, 0x106aa070,
      0x19a4c116, 0x1e376c08, 0x2748774c, 0x34b0bcb5, 0x391c0cb3, 0x4ed8aa4a,
      0x5b9cca4f, 0x682e6ff3, 0x748f82ee, 0x78a5636f, 0x84c87814, 0x8cc70208,
      0x90befffa, 0xa4506ceb, 0xbef9a3f7, 0xc67178f2]"

definition H256 :: "w32 list" where
  "H256 =
     [
      0x6a09e667, 0xbb67ae85, 0x3c6ef372, 0xa54ff53a,
      0x510e527f, 0x9b05688c, 0x1f83d9ab, 0x5be0cd19]"

definition Ch :: "w32 \<Rightarrow> w32 \<Rightarrow> w32 \<Rightarrow> w32" where
  "Ch x y z = xor (and x y) (and (not x) z)"

definition Maj :: "w32 \<Rightarrow> w32 \<Rightarrow> w32 \<Rightarrow> w32" where
  "Maj x y z = xor (xor (and x y) (and x z)) (and y z)"

definition bsig0 :: "w32 \<Rightarrow> w32" where
  "bsig0 x = xor (xor (word_rotr 2 x) (word_rotr 13 x)) (word_rotr 22 x)"

definition bsig1 :: "w32 \<Rightarrow> w32" where
  "bsig1 x = xor (xor (word_rotr 6 x) (word_rotr 11 x)) (word_rotr 25 x)"

definition ssig0 :: "w32 \<Rightarrow> w32" where
  "ssig0 x = xor (xor (word_rotr 7 x) (word_rotr 18 x)) (drop_bit 3 x)"

definition ssig1 :: "w32 \<Rightarrow> w32" where
  "ssig1 x = xor (xor (word_rotr 17 x) (word_rotr 19 x)) (drop_bit 10 x)"

type_synonym byte = "8 word"

definition be64 :: "64 word \<Rightarrow> byte list" where
  "be64 n = map (\<lambda>i. ucast (drop_bit (8 * i) n)) [7, 6, 5, 4, 3, 2, 1, 0]"

definition pad :: "byte list \<Rightarrow> byte list" where
  "pad msg = msg @ [0x80] @ replicate ((64 - (length msg + 9) mod 64) mod 64) 0
     @ be64 (word_of_nat (8 * length msg))"

fun blocks :: "nat \<Rightarrow> byte list \<Rightarrow> byte list list" where
  "blocks 0 bs = []"
| "blocks (Suc k) bs = take 64 bs # blocks k (drop 64 bs)"

fun be_words :: "byte list \<Rightarrow> w32 list" where
  "be_words (a # b # c # d # bs) =
     (push_bit 24 (ucast a) + push_bit 16 (ucast b) + push_bit 8 (ucast c) + ucast d)
       # be_words bs"
| "be_words bs = []"

fun schedule :: "nat \<Rightarrow> w32 list \<Rightarrow> w32 list" where
  "schedule 0 w = w"
| "schedule (Suc k) w =
     (let t = length w in
      schedule k (w @ [ssig1 (w ! (t - 2)) + w ! (t - 7) + ssig0 (w ! (t - 15)) + w ! (t - 16)]))"

fun round256 :: "w32 list \<Rightarrow> w32 \<times> w32 \<Rightarrow> w32 list" where
  "round256 [a, b, c, d, e, f, g, h] (k, w) =
     (let t1 = h + bsig1 e + Ch e f g + k + w;
          t2 = bsig0 a + Maj a b c
      in [t1 + t2, a, b, c, d + t1, e, f, g])"
| "round256 s kw = s"

definition compress :: "w32 list \<Rightarrow> byte list \<Rightarrow> w32 list" where
  "compress h block =
     map2 (+) h (foldl round256 h (zip K256 (schedule 48 (be_words block))))"

definition sha256 :: "byte list \<Rightarrow> w32 list" where
  "sha256 msg = foldl compress H256 (blocks (length (pad msg) div 64) (pad msg))"

definition hex_digit :: "nat \<Rightarrow> char" where
  "hex_digit n = (if n < 10 then char_of (48 + n) else char_of (87 + n))"

definition hex_word :: "w32 \<Rightarrow> string" where
  "hex_word w = map (\<lambda>i. hex_digit (unat (and (drop_bit (4 * i) w) 15))) [7, 6, 5, 4, 3, 2, 1, 0]"

definition hexdigest :: "w32 list \<Rightarrow> string" where
  "hexdigest h = concat (map hex_word h)"

text \<open>\<open>s.encode()\<close>: UTF-8 of the code points below 256.\<close>

definition encode :: "string \<Rightarrow> byte list" where
  "encode s = concat (map (\<lambda>c. let n = (of_char c :: nat) in
     if n < 128 then [word_of_nat n] else [word_of_nat (192 + n div 64), word_of_nat (128 + n mod 64)]) s)"

definition sha256_hex :: "string \<Rightarrow> string" where
  "sha256_hex s = hexdigest (sha256 (encode s))"

section \<open>Documents and their canonical serialization\<close>

text \<open>
  The objects a knowledge document is made of. A float stands by its \<open>repr\<close>, which is all
  that serialization reads of it. A dictionary is the list of its items in insertion order,
  with string keys.
\<close>

datatype pyobj =
    JNone
  | JBool bool
  | JInt int
  | JFloat string
  | JStr string
  | JList "pyobj list"
  | JTuple "pyobj list"
  | JDict "(string \<times> pyobj) list"

function show_digits :: "int \<Rightarrow> string" where
  "show_digits i =
     (if i < 10 then [char_of (48 + nat i)]
      else show_digits (i div 10) @ [char_of (48 + nat (i mod 10))])"
  by pat_completeness auto
termination
  by (relation "measure nat") auto

declare show_digits.simps [simp del]

definition show_int :: "int \<Rightarrow> string" where
  "show_int i = (if i < 0 then CHR ''-'' # show_digits (- i) else show_digits i)"

text \<open>The escapes of \<open>json.dumps\<close> with \<open>ensure_ascii\<close>.\<close>

definition json_escape_char :: "char \<Rightarrow> string" where
  "json_escape_char c =
     (if c = CHR 0x22 then [CHR 0x5C, CHR 0x22]
      else if c = CHR 0x5C then [CHR 0x5C, CHR 0x5C]
      else if c = CHR 0x0A then [CHR 0x5C, CHR ''n'']
      else if c = CHR 0x0D then [CHR 0x5C, CHR ''r'']
      else if c = CHR 0x09 then [CHR 0x5C, CHR ''t'']
      else if c = CHR 0x08 then [CHR 0x5C, CHR ''b'']
      else if c = CHR 0x0C then [CHR 0x5C, CHR ''f'']
      else if 32 \<le> (of_char c :: nat) \<and> (of_char c :: nat) \<le> 126 then [c]
      else [CHR 0x5C, CHR ''u'', CHR ''0'', CHR ''0'',
            hex_digit ((of_char c :: nat) div 16), hex_digit ((of_char c :: nat) mod 16)])"

definition json_string :: "string \<Rightarrow> string" where
  "json_string s = [CHR 0x22] @ concat (map json_escape_char s) @ [CHR 0x22]"

fun join :: "'a list \<Rightarrow> 'a list list \<Rightarrow> 'a list" where
  "join sep [] = []"
| "join sep [x] = x"
| "join sep (x # y # ys) = x @ sep @ join sep (y # ys)"

text \<open>\<open>sort_keys=True\<close>: the items in the order of their keys, by code points.\<close>

fun key_lt :: "string \<Rightarrow> string \<Rightarrow> bool" where
  "key_lt [] [] = False"
| "key_lt [] (y # ys) = True"
| "key_lt (x # xs) [] = False"
| "key_lt (x # xs) (y # ys) =
     ((of_char x :: nat) < of_char y \<or> (x = y \<and> key_lt xs ys))"

fun insert_item :: "string \<times> 'a \<Rightarrow> (string \<times> 'a) list \<Rightarrow> (string \<times> 'a) list" where
  "insert_item x [] = [x]"
| "insert_item x (y # ys) =
     (if key_lt (fst x) (fst y) then x # y # ys else y # insert_item x ys)"

definition sort_items :: "(string \<times> 'a) list \<Rightarrow> (string \<times> 'a) list" where
  "sort_items xs = foldl (\<lambda>acc x. insert_item x acc) [] xs"

fun json_dumps :: "pyobj \<Rightarrow> string" where
  "json_dumps JNone = ''null''"
| "json_dumps (JBool b) = (if b then ''true'' else ''false'')"
| "json_dumps (JInt i) = show_int i"
| "json_dumps (JFloat r) = r"
| "json_dumps (JStr s) = json_string s"
| "json_dumps (JList xs) = ''['' @ join '', '' (map json_dumps xs) @ '']''"
| "json_dumps (JTuple xs) = ''['' @ join '', '' (map json_dumps xs) @ '']''"
| "json_dumps (JDict items) =
     ''{'' @ join '', ''
        (map (\<lambda>kv. json_string (fst kv) @ '': '' @ snd kv)
           (sort_items (map (\<lambda>kv. (fst kv, json_dumps (snd kv))) items))) @ ''}''"

section \<open>The translation proof\<close>

record translation_proof =
  clarity_source :: string
  boc_target :: pyobj
  translator_version :: string
  timestamp :: string
  source_hash :: string
  target_hash :: string
  proof_hash :: string

text \<open>
  \<open>TranslationProof(clarity_source, boc_target, translator_version)\<close>; \<open>now\<close> is what
  \<open>datetime.now().isoformat()\<close> returns when the proof is built.
\<close>

definition generate_proof_hash :: "string \<Rightarrow> string \<Rightarrow> string \<Rightarrow> string \<Rightarrow> string" where
  "generate_proof_hash src_hash tgt_hash version ts =
     sha256_hex (src_hash @ tgt_hash @ version @ ts)"

definition TranslationProof :: "string \<Rightarrow> string \<Rightarrow> pyobj \<Rightarrow> string \<Rightarrow> translation_proof" where
  "TranslationProof now src tgt version =
     \<lparr>clarity_source = src, boc_target = tgt, translator_version = version, timestamp = now,
      source_hash = sha256_hex src,
      target_hash = sha256_hex (json_dumps tgt),
      proof_hash = generate_proof_hash (sha256_hex src) (sha256_hex (json_dumps tgt)) version now\<rparr>"

definition verify_proof :: "translation_proof \<Rightarrow> string \<Rightarrow> pyobj \<Rightarrow> bool" where
  "verify_proof self src tgt =
     (let computed_source_hash = sha256_hex src;
          computed_target_hash = sha256_hex (json_dumps tgt);
          proof_data = computed_source_hash @ computed_target_hash @ translator_version self
                         @ timestamp self;
          computed_proof_hash = sha256_hex proof_data
      in computed_proof_hash = proof_hash self \<and> computed_source_hash = source_hash self)"

text \<open>Two different texts with one digest.\<close>

definition collide :: "string \<Rightarrow> string \<Rightarrow> bool" where
  "collide x y \<longleftrightarrow> x \<noteq> y \<and> sha256_hex x = sha256_hex y"

section \<open>Reading a document\<close>

datatype doc_error = Doc_AttributeError | Doc_KeyError string | Doc_TypeError

type_synonym 'a doc_result = "(doc_error, 'a) outcome"

definition bind_o :: "('e, 'a) outcome \<Rightarrow> ('a \<Rightarrow> ('e, 'b) outcome) \<Rightarrow> ('e, 'b) outcome" where
  "bind_o m f = (case m of
      Ok a \<Rightarrow> f a
    | Raise e \<Rightarrow> Raise e
    | Timeout \<Rightarrow> Timeout
    | Unmodelled \<Rightarrow> Unmodelled)"

fun map_o :: "('a \<Rightarrow> ('e, 'b) outcome) \<Rightarrow> 'a list \<Rightarrow> ('e, 'b list) outcome" where
  "map_o f [] = Ok []"
| "map_o f (x # xs) = bind_o (f x) (\<lambda>y. bind_o (map_o f xs) (\<lambda>ys. Ok (y # ys)))"

text \<open>\<open>obj.get(key, default)\<close>: only a dictionary has the method.\<close>

definition py_get :: "pyobj \<Rightarrow> string \<Rightarrow> pyobj \<Rightarrow> pyobj doc_result" where
  "py_get obj key dflt =
     (case obj of
        JDict items \<Rightarrow> Ok (case map_of items key of Some v \<Rightarrow> v | None \<Rightarrow> dflt)
      | _ \<Rightarrow> Raise Doc_AttributeError)"

text \<open>\<open>obj[key]\<close> with a string key.\<close>

definition py_getitem :: "pyobj \<Rightarrow> string \<Rightarrow> pyobj doc_result" where
  "py_getitem obj key =
     (case obj of
        JDict items \<Rightarrow> (case map_of items key of Some v \<Rightarrow> Ok v | None \<Rightarrow> Raise (Doc_KeyError key))
      | _ \<Rightarrow> Raise Doc_TypeError)"

fun is_substring :: "string \<Rightarrow> string \<Rightarrow> bool" where
  "is_substring k [] = (k = [])"
| "is_substring k (c # s) = (take (length k) (c # s) = k \<or> is_substring k s)"

text \<open>\<open>key in obj\<close> with a string key.\<close>

definition py_in :: "string \<Rightarrow> pyobj \<Rightarrow> bool doc_result" where
  "py_in key obj =
     (case obj of
        JDict items \<Rightarrow> Ok (key \<in> fst ` set items)
      | JList xs \<Rightarrow> Ok (JStr key \<in> set xs)
      | JTuple xs \<Rightarrow> Ok (JStr key \<in> set xs)
      | JStr s \<Rightarrow> Ok (is_substring key s)
      | _ \<Rightarrow> Raise Doc_TypeError)"

text \<open>What a \<open>for\<close> loop over the object yields.\<close>

definition py_iter :: "pyobj \<Rightarrow> pyobj list doc_result" where
  "py_iter obj =
     (case obj of
        JList xs \<Rightarrow> Ok xs
      | JTuple xs \<Rightarrow> Ok xs
      | JDict items \<Rightarrow> Ok (map (\<lambda>kv. JStr (fst kv)) items)
      | JStr s \<Rightarrow> Ok (map (\<lambda>c. JStr [c]) s)
      | _ \<Rightarrow> Raise Doc_TypeError)"

definition py_truthy :: "pyobj \<Rightarrow> bool" where
  "py_truthy obj =
     (case obj of
        JNone \<Rightarrow> False
      | JBool b \<Rightarrow> b
      | JInt i \<Rightarrow> i \<noteq> 0
      | JFloat r \<Rightarrow> r \<noteq> ''0.0'' \<and> r \<noteq> ''-0.0''
      | JStr s \<Rightarrow> s \<noteq> []
      | JList xs \<Rightarrow> xs \<noteq> []
      | JTuple xs \<Rightarrow> xs \<noteq> []
      | JDict items \<Rightarrow> items \<noteq> [])"

section \<open>The reverse translator\<close>

text \<open>
  Generated text is kept as lines of pieces: literal text, and \<open>Fmt v\<close> for the text that an
  f-string puts in for the object \<open>v\<close>. An element of \<open>clarity_code\<close> is text (some lines)
  or, from \<open>_generate_conditional_code\<close>, a list, which \<open>join\<close> refuses.
\<close>

datatype piece = Lit string | Fmt pyobj

datatype code_item = Text "piece list list" | NotText

definition generate_function_code :: "pyobj \<Rightarrow> nat \<Rightarrow> code_item doc_result" where
  "generate_function_code func_def index =
     bind_o (py_getitem func_def ''parameters'') (\<lambda>ps.
     bind_o (py_iter ps) (\<lambda>param_list.
     bind_o (map_o (\<lambda>param.
               bind_o (py_getitem param ''name'') (\<lambda>n.
               bind_o (py_getitem param ''type'') (\<lambda>ty.
                 Ok [Fmt n, Lit '': '', Fmt ty]))) param_list) (\<lambda>params.
     bind_o (py_getitem func_def ''return_type'') (\<lambda>rt.
       let param_str = join [Lit '', ''] params;
           return_type = (if py_truthy rt then [Lit '' -> '', Fmt rt] else [])
       in
     bind_o (py_get func_def ''provenance'' (JDict [])) (\<lambda>provenance.
     bind_o (py_get provenance ''original_lines'' (JStr ''unknown'')) (\<lambda>original_lines.
     bind_o (py_getitem func_def ''structured_knowledge'') (\<lambda>sk1.
     bind_o (py_getitem sk1 ''semantic_preservation_level'') (\<lambda>level.
     bind_o (py_getitem func_def ''structured_knowledge'') (\<lambda>sk2.
     bind_o (py_getitem sk2 ''confidence'') (\<lambda>confidence.
     bind_o (py_getitem func_def ''structured_knowledge'') (\<lambda>sk3.
     bind_o (py_getitem sk3 ''name'') (\<lambda>name.
       Ok (Text
         [[Lit ''// Function #'', Lit (show_int (int index)), Lit '' - BOC Origin: '',
           Fmt original_lines],
          [Lit ''// Semantic preservation: '', Fmt level],
          [Lit ''// Confidence: '', Fmt confidence],
          [Lit ''fn '', Fmt name, Lit ''(''] @ param_str @ [Lit '')''] @ return_type @ [Lit '' {''],
          [Lit ''    // TODO: Implement function logic''],
          [Lit ''    // Based on reasoning context and intent in original BOC''],
          [Lit ''    // Debugging trace available via provenance information''],
          [Lit ''}'']])))))))))))))"

definition generate_variable_declaration :: "pyobj \<Rightarrow> nat \<Rightarrow> code_item doc_result" where
  "generate_variable_declaration belief index =
     bind_o (py_getitem belief ''fact'') (\<lambda>fact.
       case fact of
         JStr f \<Rightarrow>
           if take 9 f = ''variable_'' \<and> is_substring ''_initialized'' f then
             bind_o (py_getitem belief ''confidence'') (\<lambda>confidence.
             bind_o (py_get belief ''value'' (JStr ''unknown'')) (\<lambda>v.
               Ok (Text [[Lit ''// ['', Lit (show_int (int index)), Lit ''] '', Fmt confidence,
                          Lit '' confidence that '', Lit f, Lit '' = '', Fmt v]])))
           else
             bind_o (py_getitem belief ''confidence'') (\<lambda>confidence.
               Ok (Text [[Lit ''// ['', Lit (show_int (int index)), Lit ''] Belief: '', Lit f,
                          Lit '' (confidence: '', Fmt confidence, Lit '')'']]))
       | _ \<Rightarrow> Raise Doc_AttributeError)"

definition generate_conditional_code :: "pyobj \<Rightarrow> nat \<Rightarrow> code_item doc_result" where
  "generate_conditional_code ctx index =
     bind_o (py_get ctx ''debugging_info'' (JDict [])) (\<lambda>debugging_info.
     bind_o (py_get debugging_info ''branch_coverage'' (JStr ''not_tracked'')) (\<lambda>coverage.
     bind_o (py_get ctx ''condition'' (JStr ''unknown'')) (\<lambda>condition.
     bind_o (py_get ctx ''confidence_threshold'' (JFloat ''0.5'')) (\<lambda>threshold.
       Ok NotText))))"

definition generate_component :: "pyobj \<Rightarrow> nat \<Rightarrow> code_item doc_result" where
  "generate_component component idx =
     bind_o (bind_o (py_in ''structured_knowledge'' component) (\<lambda>has_sk.
               if has_sk then
                 bind_o (py_getitem component ''structured_knowledge'') (\<lambda>sk.
                 bind_o (py_getitem sk ''type'') (\<lambda>ty. Ok (ty = JStr ''function_definition'')))
               else Ok False)) (\<lambda>is_function.
       if is_function then
         bind_o (py_getitem component ''structured_knowledge'') (\<lambda>func_def.
           generate_function_code func_def idx)
       else
         bind_o (py_in ''belief'' component) (\<lambda>has_belief.
           if has_belief then
             bind_o (py_getitem component ''belief'') (\<lambda>belief.
               generate_variable_declaration belief idx)
           else
             bind_o (py_in ''reasoning_context'' component) (\<lambda>has_context.
               if has_context then
                 bind_o (py_getitem component ''reasoning_context'') (\<lambda>ctx.
                   generate_conditional_code ctx idx)
               else
                 Ok (Text [[Lit ''// Component '', Lit (show_int (int idx)),
                            Lit '': Generic element translated from BOC'']]))))"

fun generate_components :: "nat \<Rightarrow> pyobj list \<Rightarrow> code_item list doc_result" where
  "generate_components idx [] = Ok []"
| "generate_components idx (component # components) =
     bind_o (generate_component component idx) (\<lambda>item.
     bind_o (generate_components (Suc idx) components) (\<lambda>items. Ok (item # items)))"

text \<open>\<open>"\n".join(clarity_code)\<close>\<close>

fun join_lines :: "code_item list \<Rightarrow> piece list list doc_result" where
  "join_lines [] = Ok []"
| "join_lines (Text ls # items) = bind_o (join_lines items) (\<lambda>rest. Ok (ls @ rest))"
| "join_lines (NotText # items) = Raise Doc_TypeError"

definition rev_version :: string where
  "rev_version = ''2.0-enhanced''"

definition translate_to_clarity :: "string \<Rightarrow> pyobj \<Rightarrow> piece list list doc_result" where
  "translate_to_clarity now boc_representation =
     bind_o (py_get boc_representation ''structured_knowledge'' (JDict [])) (\<lambda>sk.
     bind_o (py_get sk ''provenance'' (JDict [])) (\<lambda>provenance.
     bind_o (py_get provenance ''author'' (JStr ''unknown'')) (\<lambda>author.
     bind_o (py_get boc_representation ''structured_knowledge'' (JDict [])) (\<lambda>sk2.
     bind_o (py_get sk2 ''components'' (JList [])) (\<lambda>components.
     bind_o (py_iter components) (\<lambda>component_list.
     bind_o (generate_components 0 component_list) (\<lambda>items.
       join_lines
         (Text [[Lit ''// Auto-generated from BOC representation (v'', Lit rev_version, Lit '')''],
                [Lit ''// Translated at: '', Lit now],
                [Lit ''// Original source: '', Fmt author],
                []] # items))))))))"

record verification =
  verification_passed :: bool
  confidence_level :: string
  differences_detected :: "pyobj list"
  semantic_equivalence_confirmed :: bool

record reverse_translation =
  clarity_code :: "piece list list"
  verification_result :: "verification option"
  rev_translator_version :: string
  rev_timestamp :: string

definition verify_round_trip :: "pyobj \<Rightarrow> pyobj \<Rightarrow> verification" where
  "verify_round_trip boc_repr expected_proof =
     \<lparr>verification_passed = True, confidence_level = ''0.95'', differences_detected = [],
      semantic_equivalence_confirmed = True\<rparr>"

text \<open>
  \<open>translate_with_verification(boc_representation, expected_proof)\<close>; \<open>now1\<close> and \<open>now2\<close> are
  the two readings of the clock, and \<open>JNone\<close> is the default \<open>None\<close> of \<open>expected_proof\<close>.
\<close>

definition translate_with_verification ::
  "string \<Rightarrow> string \<Rightarrow> pyobj \<Rightarrow> pyobj \<Rightarrow> reverse_translation doc_result" where
  "translate_with_verification now1 now2 boc_representation expected_proof =
     bind_o (translate_to_clarity now1 boc_representation) (\<lambda>code.
       let verification_result =
             (if py_truthy expected_proof
              then Some (verify_round_trip boc_representation expected_proof) else None)
       in Ok \<lparr>clarity_code = code, verification_result = verification_result,
               rev_translator_version = rev_version, rev_timestamp = now2\<rparr>)"

text \<open>The dictionary \<open>proof.__dict__.copy()\<close> that forward translation hands out.\<close>

definition proof_dict :: "translation_proof \<Rightarrow> pyobj" where
  "proof_dict p =
     JDict [(''clarity_source'', JStr (clarity_source p)), (''boc_target'', boc_target p),
            (''translator_version'', JStr (translator_version p)),
            (''timestamp'', JStr (timestamp p)), (''source_hash'', JStr (source_hash p)),
            (''target_hash'', JStr (target_hash p)), (''proof_hash'', JStr (proof_hash p))]"


section \<open>The forward translator\<close>

text \<open>
  What translation reads from its surroundings: \<open>clock i\<close> is the \<open>i\<close>-th reading of
  \<open>datetime.now().isoformat()\<close> during one translation, \<open>object_str\<close> is \<open>str\<close> of a node
  (the default text with the object's address) and \<open>type_str\<close> is \<open>str(type(node))\<close>.
\<close>

record host =
  clock :: "nat \<Rightarrow> string"
  object_str :: "node \<Rightarrow> string"
  type_str :: "node \<Rightarrow> string"

definition version :: string where
  "version = ''2.0-enhanced''"

fun node_type :: "node \<Rightarrow> string" where
  "node_type (Program statements) = ''Program''"
| "node_type (FunctionDef name params return_type body) = ''FunctionDef''"
| "node_type (VariableDecl mutable name var_type v) = ''VariableDecl''"
| "node_type (ConstantDecl name v) = ''ConstantDecl''"
| "node_type (Assignment name v) = ''Assignment''"
| "node_type (BinaryOp left operator right) = ''BinaryOp''"
| "node_type (UnaryOp operator operand) = ''UnaryOp''"
| "node_type (IfExpr condition then_branch else_branch) = ''IfExpr''"
| "node_type (WhileLoop condition body) = ''WhileLoop''"
| "node_type (ForLoop variable iterable body) = ''ForLoop''"
| "node_type (ReturnStmt v) = ''ReturnStmt''"
| "node_type (FunctionCall name args) = ''FunctionCall''"
| "node_type (Identifier name) = ''Identifier''"
| "node_type (Number v) = ''Number''"
| "node_type (String v) = ''String''"
| "node_type (Boolean v) = ''Boolean''"
| "node_type (MatchExpr expr arms) = ''MatchExpr''"

definition infer_parameter_constraints :: "string \<Rightarrow> string \<Rightarrow> pyobj" where
  "infer_parameter_constraints param_name param_type =
     JDict ([(''type'', JStr param_type)] @
       (if param_type = ''Int'' then [(''range'', JStr ''machine_integer_range'')]
        else if param_type = ''Float'' then
          [(''range'', JStr ''floating_point_range''),
           (''precision'', JStr ''implementation_dependent'')]
        else []))"

definition provenance_line :: "string \<Rightarrow> pyobj" where
  "provenance_line now =
     JDict [(''original_line'', JInt 1), (''translated_by'', JStr ''clarity_to_boc_translator_v2''),
            (''timestamp'', JStr now)]"

definition traceability :: pyobj where
  "traceability =
     JDict [(''can_be_traced_back_to_source'', JBool True),
            (''source_mapping_available'', JBool True),
            (''debugging_support_level'', JStr ''full'')]"

text \<open>
  \<open>translate_function_def\<close>: one reading of the clock. A node from the parser has no
  \<open>line_range\<close> attribute, so \<open>original_lines\<close> is the default, the tuple \<open>(1, 1)\<close>; the
  parameters under \<open>intent\<close> are the parser's list of pairs, tuples as well.
\<close>

definition translate_function_def ::
  "string \<Rightarrow> string \<Rightarrow> (string \<times> string) list \<Rightarrow> string option \<Rightarrow> pyobj" where
  "translate_function_def now name params return_type =
     JDict
      [(''structured_knowledge'', JDict
          [(''type'', JStr ''function_definition''),
           (''name'', JStr name),
           (''parameters'', JList (map (\<lambda>(param_name, param_type).
               JDict [(''name'', JStr param_name), (''type'', JStr param_type),
                      (''confidence'', JFloat ''1.0''),
                      (''constraints'', infer_parameter_constraints param_name param_type)])
             params)),
           (''return_type'', (case return_type of Some r \<Rightarrow> JStr r | None \<Rightarrow> JNone)),
           (''confidence'', JFloat ''1.0''),
           (''source'', JStr ''human_contributed''),
           (''original_syntax'', JStr ''clarity''),
           (''semantic_preservation_level'', JStr ''complete''),
           (''translation_metadata'', JDict
              [(''preserved_invariants'', JList [JStr ''function_signature'',
                  JStr ''return_type_consistency'', JStr ''side_effect_behavior'']),
               (''potential_semantic_shifts'', JList [JStr ''floating_point_precision'',
                  JStr ''optimization_effects'', JStr ''abstraction_leakage'']),
               (''validation_requirements'', JList [JStr ''type_safety'',
                  JStr ''side_effect_tracking''])])]),
       (''provenance'', JDict
          [(''original_lines'', JTuple [JInt 1, JInt 1]),
           (''translated_by'', JStr ''clarity_to_boc_translator_v2''),
           (''timestamp'', JStr now),
           (''semantic_equivalence_verified'', JBool True)]),
       (''reasoning_context'', JDict
          [(''assumptions'', JList [JStr ''inputs_are_valid'', JStr ''system_resources_available'']),
           (''implications'', JList [JStr ''side_effects_possible'',
              JStr ''resource_utilization_expected'']),
           (''confidence_threshold'', JFloat ''0.7''),
           (''debugging_info'', JDict
              [(''original_logic_flow'', JStr ''sequential_execution_with_conditionals''),
               (''variable_dependencies'', JDict [(''input_dependent_vars'', JList []),
                  (''computed_vars'', JList [])]),
               (''side_effects'', JList [JStr ''none_identified_static_analysis''])])]),
       (''intent'', JDict
          [(''to_perform'', JStr (''execute_function_'' @ name)),
           (''parameters'', JList (map (\<lambda>(param_name, param_type).
               JTuple [JStr param_name, JStr param_type]) params)),
           (''execution_context'', JStr ''runtime_call''),
           (''priority'', JStr ''normal''),
           (''traceability'', traceability)])]"

text \<open>
  \<open>_translate_value\<close>: the \<open>value\<close> attribute where the node has one, else \<open>str\<close> of the
  node. Where the attribute holds a node again (no parsed program has that in a declaration)
  the document cannot be serialized; the model leaves that case out.
\<close>

definition translate_value :: "host \<Rightarrow> node \<Rightarrow> pyobj doc_result" where
  "translate_value h value_ast =
     (case value_ast of
        Number v \<Rightarrow> Ok (JInt v)
      | String v \<Rightarrow> Ok (JStr v)
      | Boolean v \<Rightarrow> Ok (JBool v)
      | ReturnStmt None \<Rightarrow> Ok JNone
      | ReturnStmt (Some v) \<Rightarrow> Unmodelled
      | VariableDecl mutable name var_type v \<Rightarrow> Unmodelled
      | ConstantDecl name v \<Rightarrow> Unmodelled
      | Assignment name v \<Rightarrow> Unmodelled
      | _ \<Rightarrow> Ok (JStr (object_str h value_ast)))"

definition translate_variable_declaration ::
  "host \<Rightarrow> string \<Rightarrow> bool \<Rightarrow> string \<Rightarrow> node \<Rightarrow> pyobj doc_result" where
  "translate_variable_declaration h now mutable name v =
     bind_o (translate_value h v) (\<lambda>val.
       Ok (JDict
        [(''belief'', JDict
            [(''fact'', JStr (''variable_'' @ name @ ''_initialized'')),
             (''value'', val),
             (''confidence'', JFloat ''0.95''),
             (''source'', JStr ''program_initialization''),
             (''certainty_decay'', JStr (if mutable then ''none'' else ''over_time'')),
             (''semantic_metadata'', JDict
                [(''preservation_guarantee'', JStr ''exact''),
                 (''conversion_path'', JStr ''direct_mapping''),
                 (''validation_checkpoints'', JList [JStr ''initialization'',
                    JStr ''assignment'', JStr ''access''])])]),
         (''provenance'', provenance_line now)]))"

text \<open>\<open>_translate_statements\<close>: one reading of the clock for each statement, from \<open>t\<close> on.\<close>

fun translate_statements :: "host \<Rightarrow> nat \<Rightarrow> node list \<Rightarrow> pyobj list" where
  "translate_statements h t [] = []"
| "translate_statements h t (stmt # stmts) =
     JDict [(''statement_type'', JStr (type_str h stmt)),
            (''content'', JStr (object_str h stmt)),
            (''provenance'', provenance_line (clock h t))]
       # translate_statements h (Suc t) stmts"

definition translate_conditional ::
  "host \<Rightarrow> nat \<Rightarrow> node \<Rightarrow> node list \<Rightarrow> node list option \<Rightarrow> pyobj \<times> nat" where
  "translate_conditional h t condition then_branch else_branch =
     (let else_stmts = (case else_branch of Some (s # ss) \<Rightarrow> s # ss | _ \<Rightarrow> []);
          t1 = t + length then_branch;
          t2 = t1 + length else_stmts
      in (JDict
        [(''reasoning_context'', JDict
            [(''condition'', JStr (object_str h condition)),
             (''branches'', JDict
                [(''then'', JList (translate_statements h t then_branch)),
                 (''else'', JList (translate_statements h t1 else_stmts))]),
             (''confidence_threshold'', JFloat ''0.5''),
             (''debugging_info'', JDict
                [(''branch_coverage'', JDict [(''then_visited'', JBool False),
                    (''else_visited'', JBool False)]),
                 (''condition_evaluation_trace'', JList []),
                 (''decision_factors'', JList [JStr ''condition_value'',
                    JStr ''runtime_context''])])]),
         (''provenance'', provenance_line (clock h t2))], Suc t2))"

definition translate_other :: "string \<Rightarrow> node \<Rightarrow> pyobj" where
  "translate_other now stmt =
     JDict
      [(''belief'', JDict
          [(''fact'', JStr (''program_contains_'' @ node_type stmt)),
           (''confidence'', JFloat ''0.8''),
           (''source'', JStr ''program_structure''),
           (''semantic_metadata'', JDict
              [(''preservation_guarantee'', JStr ''structural''),
               (''conversion_path'', JStr ''direct_mapping''),
               (''validation_checkpoints'', JList [JStr ''parsing'', JStr ''validation''])])]),
       (''provenance'', provenance_line now)]"

text \<open>The loop of \<open>translate_entire_program\<close> over the statements, the clock at \<open>t\<close>.\<close>

fun translate_components :: "host \<Rightarrow> nat \<Rightarrow> node list \<Rightarrow> (pyobj list \<times> nat) doc_result" where
  "translate_components h t [] = Ok ([], t)"
| "translate_components h t (stmt # stmts) =
     bind_o
       (case stmt of
          FunctionDef name params return_type body \<Rightarrow>
            Ok (translate_function_def (clock h t) name params return_type, Suc t)
        | VariableDecl mutable name var_type v \<Rightarrow>
            bind_o (translate_variable_declaration h (clock h t) mutable name v)
              (\<lambda>d. Ok (d, Suc t))
        | IfExpr condition then_branch else_branch \<Rightarrow>
            Ok (translate_conditional h t condition then_branch else_branch)
        | _ \<Rightarrow> Ok (translate_other (clock h t) stmt, Suc t))
       (\<lambda>(translated, t1).
          bind_o (translate_components h t1 stmts) (\<lambda>(rest, t2). Ok (translated # rest, t2)))"

text \<open>
  The dictionary \<open>boc_program\<close> of \<open>translate_entire_program\<close>, with the components that
  the loop has appended; its two time stamps are the first two readings of the clock.
\<close>

definition boc_program :: "host \<Rightarrow> pyobj list \<Rightarrow> pyobj" where
  "boc_program h components =
     JDict
      [(''structured_knowledge'', JDict
          [(''type'', JStr ''program''),
           (''components'', JList components),
           (''provenance'', JDict
              [(''author'', JStr ''human_contributor''),
               (''translation_tool'', JStr ''clarity_to_boc_translator_v2''),
               (''translator_version'', JStr version),
               (''timestamp'', JStr (clock h 0)),
               (''semantic_equivalence_verified'', JBool True),
               (''trust_boundary_validation'', JDict
                  [(''verification_method'', JStr ''proof_carrying_code''),
                   (''verification_passed'', JBool True),
                   (''verification_timestamp'', JStr (clock h 1))])])]),
       (''intent'', JDict
          [(''to_perform'', JStr ''execute_program''),
           (''confidence_level'', JFloat ''0.9''),
           (''deadline'', JStr ''indefinite''),
           (''traceability'', traceability)]),
       (''versioning_info'', JDict
          [(''surface_layer_version'', JStr ''unspecified''),
           (''deep_layer_version'', JStr version),
           (''compatibility_matrix'', JDict
              [(''compatible_deep_versions'', JList [JStr ''2.x'']),
               (''minimum_surface_version'', JStr ''1.0'')])])]"

definition translate_entire_program :: "host \<Rightarrow> node \<Rightarrow> (pyobj \<times> nat) doc_result" where
  "translate_entire_program h clarity_ast =
     (case clarity_ast of
        Program statements \<Rightarrow>
          bind_o (translate_components h 2 statements) (\<lambda>(components, t).
            Ok (boc_program h components, t))
      | _ \<Rightarrow> Raise Doc_AttributeError)"

text \<open>
  \<open>translate_with_provenance\<close>: the document, the proof over the source text and the
  document, and the (empty) source map.
\<close>

record translation =
  boc_representation :: pyobj
  out_proof :: translation_proof
  source_map :: "((int \<times> int) \<times> string) list"
  out_translator_version :: string
  out_timestamp :: string

definition translate_with_provenance :: "host \<Rightarrow> node \<Rightarrow> string \<Rightarrow> translation doc_result" where
  "translate_with_provenance h clarity_ast clarity_source_code =
     bind_o (translate_entire_program h clarity_ast) (\<lambda>(boc, t).
       Ok \<lparr>boc_representation = boc,
           out_proof = TranslationProof (clock h t) clarity_source_code boc version,
           source_map = [],
           out_translator_version = version,
           out_timestamp = clock h (Suc t)\<rparr>)"


section \<open>The rule of match arms, as the specification words it\<close>

text \<open>
  The specification: arms are tested top to bottom; a literal pattern matches when its value
  equals the scrutinee, an identifier pattern always matches; the first arm that matches
  gives the result. \<open>first_matching_arm\<close> says this without reference to the interpreter's
  loop, to compare \<open>visit_MatchExpr\<close> with it.
\<close>

fun pattern_matches :: "pyvalue \<Rightarrow> node \<Rightarrow> bool" where
  "pattern_matches v (Number i) = (py_eq v (VInt i) = Some True)"
| "pattern_matches v (String s) = (py_eq v (VStr s) = Some True)"
| "pattern_matches v (Boolean b) = (py_eq v (VBool b) = Some True)"
| "pattern_matches v (Identifier x) = True"
| "pattern_matches v _ = False"

definition first_matching_arm :: "pyvalue \<Rightarrow> (node \<times> node) list \<Rightarrow> node option" where
  "first_matching_arm v arms =
     map_option snd (find (\<lambda>(pattern, result_expr). pattern_matches v pattern) arms)"

section \<open>What a scope may change\<close>

text \<open>
  \<open>names_kept st st'\<close>: from \<open>st\<close> to \<open>st'\<close> the current environment is the same object,
  no environment of \<open>st\<close> is lost, and every environment of \<open>st\<close> has its parent and its
  names (the keys of \<open>vars\<close>, in order) unchanged; values may differ. \<open>scopes_kept\<close> is the
  same but for the names of the current environment, which may have grown.
\<close>

definition names :: "environment \<Rightarrow> string list" where
  "names e = map fst (vars e)"

definition scopes_kept :: "interpreter \<Rightarrow> interpreter \<Rightarrow> bool" where
  "scopes_kept st st' \<longleftrightarrow>
     global_env st' = global_env st \<and> length (store st) \<le> length (store st') \<and>
     (\<forall>a < length (store st).
        parent (store st' ! a) = parent (store st ! a) \<and>
        (a \<noteq> global_env st \<longrightarrow> names (store st' ! a) = names (store st ! a)))"

definition names_kept :: "interpreter \<Rightarrow> interpreter \<Rightarrow> bool" where
  "names_kept st st' \<longleftrightarrow>
     global_env st' = global_env st \<and> length (store st) \<le> length (store st') \<and>
     (\<forall>a < length (store st).
        parent (store st' ! a) = parent (store st ! a) \<and>
        names (store st' ! a) = names (store st ! a))"

text \<open>A visitor that keeps the scopes, whatever the node and the state.\<close>

definition visitor_ok :: "visitor \<Rightarrow> bool" where
  "visitor_ok v \<longleftrightarrow> (\<forall>node st. scopes_kept st (snd (v node st)))"

text \<open>
  The two loops of C7, over a list that the host has bound to \<open>xs\<close> in the global
  environment (the surface syntax has no list literal): \<open>for x in xs { println(x); }\<close>, and
  a loop whose body reads \<open>y\<close> in the second iteration after defining it in the first:
  \<open>for x in xs { if x == 2 { println(y); } let y = x; }\<close>.
\<close>

definition interpreter_with_xs :: interpreter where
  "interpreter_with_xs = env_define 0 ''xs'' (VList [VInt 1, VInt 2, VInt 3]) Interpreter"

definition for_println :: node where
  "for_println =
     ForLoop ''x'' (Identifier ''xs'') [FunctionCall (NameStr ''println'') [Identifier ''x'']]"

definition for_scope :: node where
  "for_scope =
     ForLoop ''x'' (Identifier ''xs'')
       [IfExpr (BinaryOp (Identifier ''x'') ''=='' (Number 2))
          [FunctionCall (NameStr ''println'') [Identifier ''y'']] None,
        VariableDecl False ''y'' None (Identifier ''x'')]"

text \<open>The interpreter after \<open>fn add(a: Int, b: Int) -> Int { return a + b; }\<close>.\<close>

definition add_node :: node where
  "add_node = FunctionDef ''add'' [(''a'', ''Int''), (''b'', ''Int'')] (Some ''Int'')
     [ReturnStmt (Some (BinaryOp (Identifier ''a'') ''+'' (Identifier ''b'')))]"

definition interpreter_with_add :: interpreter where
  "interpreter_with_add = env_define 0 ''add'' (VNode add_node) Interpreter"

section \<open>Documents with tuples, and the examples of translation\<close>

text \<open>
  The same document with every tuple replaced by the list of its items: a different object
  (\<open>(1, 1) == [1, 1]\<close> is false), and what reading the serialized document back gives.
\<close>

fun untuple :: "pyobj \<Rightarrow> pyobj" where
  "untuple (JList xs) = JList (map untuple xs)"
| "untuple (JTuple xs) = JList (map untuple xs)"
| "untuple (JDict items) = JDict (map (\<lambda>kv. (fst kv, untuple (snd kv))) items)"
| "untuple v = v"

definition example_host :: host where
  "example_host =
     \<lparr>clock = (\<lambda>i. ''2024-01-01T12:00:00.00000'' @ show_int (int i)),
      object_str = (\<lambda>n. ''<clarity_parser.'' @ node_type n @ '' object>''),
      type_str = (\<lambda>n. ''<class clarity_parser.'' @ node_type n @ ''>'')\<rparr>"

definition function_source :: string where
  "function_source = ''fn f() { }''"

definition function_ast :: node where
  "function_ast = Program [FunctionDef ''f'' [] None []]"

definition function_document :: pyobj where
  "function_document =
     boc_program example_host [translate_function_def (clock example_host 2) ''f'' [] None]"

definition variable_document :: pyobj where
  "variable_document =
     boc_program example_host
       [JDict
        [(''belief'', JDict
            [(''fact'', JStr ''variable_x_initialized''),
             (''value'', JInt 5),
             (''confidence'', JFloat ''0.95''),
             (''source'', JStr ''program_initialization''),
             (''certainty_decay'', JStr ''over_time''),
             (''semantic_metadata'', JDict
                [(''preservation_guarantee'', JStr ''exact''),
                 (''conversion_path'', JStr ''direct_mapping''),
                 (''validation_checkpoints'', JList [JStr ''initialization'',
                    JStr ''assignment'', JStr ''access''])])]),
         (''provenance'', provenance_line (clock example_host 2))]]"

text \<open>A proof dictionary whose three hashes are no digests at all.\<close>

definition forged_proof :: pyobj where
  "forged_proof =
     JDict [(''clarity_source'', JStr ''let x = 5;''), (''boc_target'', JDict []),
            (''translator_version'', JStr ''2.0-enhanced''),
            (''timestamp'', JStr ''2024-01-01T12:00:00.000004''),
            (''source_hash'', JStr ''0''), (''target_hash'', JStr ''0''),
            (''proof_hash'', JStr ''0'')]"
section \<open>Escapes in string literals (C5)\<close>

text \<open>
  C5. A backslash escape inside a string literal is claimed to keep both the backslash and
  the character after it in the lexeme. The lexer of clarity\_parser, which the parser and
  the interpreter use, keeps only the character after the backslash: the six characters
  \<^verbatim>\<open>"a\nb"\<close> give the lexeme \<^verbatim>\<open>anb\<close>. The optimized lexer keeps both on the same
  input.
\<close>

theorem C5_lexer_drops_the_escape_character:
  "map_sum id fst
     (get_next_token (Lexer [CHR 0x22, CHR ''a'', CHR 0x5C, CHR ''n'', CHR ''b'', CHR 0x22]))
     = Inr (Token STRING ''anb'' 1 0)
   \<and> map_sum id fst
     (o_get_next_token
        (OptimizedLexer [CHR 0x22, CHR ''a'', CHR 0x5C, CHR ''n'', CHR ''b'', CHR 0x22]))
     = Inr (Token STRING [CHR ''a'', CHR 0x5C, CHR ''n'', CHR ''b''] 1 0)"
  by code_simp

section \<open>The lookahead of parse\_statement (C9)\<close>

text \<open>
  C9. The one-token lookahead on a leading identifier is claimed to put the lexer back as
  it was, so that later tokens carry the positions they would carry without the peek. The
  code puts back \<open>pos\<close> and \<open>current_char\<close> only; \<open>line\<close> and \<open>column\<close> stay where the
  peek left them. On \<^verbatim>\<open>x = 1\<close> the token after the identifier is the \<open>=\<close> at column 2:
  eaten directly it has column 2 and leaves the lexer at column 3; eaten after the peek it
  has column 4 and leaves the lexer at column 5. The position survives into what the parser
  reports: in \<^verbatim>\<open>x = 1 match y { + }\<close> the \<open>+\<close> stands at column 16, where the lexer alone
  finds it, and the parser reports the invalid pattern at column 18.
\<close>

theorem C9_peek_leaves_line_and_column_advanced:
  "Parser (Lexer ''x = 1'') =
     Ok \<lparr>plexer = \<lparr>ltext = ''x = 1'', pos = 1, current_char = Some (CHR '' ''), line = 1, column = 1\<rparr>,
         current_token = Token IDENTIFIER ''x'' 1 0\<rparr>
   \<and> (case Parser (Lexer ''x = 1'') of
        Ok p \<Rightarrow> eat IDENTIFIER p
      | Raise e \<Rightarrow> Raise e | Timeout \<Rightarrow> Timeout | Unmodelled \<Rightarrow> Unmodelled) =
     Ok ((), \<lparr>plexer = \<lparr>ltext = ''x = 1'', pos = 3, current_char = Some (CHR '' ''), line = 1, column = 3\<rparr>,
         current_token = Token ASSIGN ''='' 1 2\<rparr>)
   \<and> (case Parser (Lexer ''x = 1'') of
        Ok p \<Rightarrow> bind_p peek_next_token (\<lambda>next_token. eat IDENTIFIER) p
      | Raise e \<Rightarrow> Raise e | Timeout \<Rightarrow> Timeout | Unmodelled \<Rightarrow> Unmodelled) =
     Ok ((), \<lparr>plexer = \<lparr>ltext = ''x = 1'', pos = 3, current_char = Some (CHR '' ''), line = 1, column = 5\<rparr>,
         current_token = Token ASSIGN ''='' 1 4\<rparr>)
   \<and> parse_source 50 ''x = 1 match y { + }'' = Raise (InvalidPattern 1 18)
   \<and> parse_source 50 ''match y { + }'' = Raise (InvalidPattern 1 10)"
  by code_simp

section \<open>Return inside a nested block (C3)\<close>

text \<open>
  C3. A \<open>return\<close> met anywhere while a function body runs is claimed to end the call with
  its value. \<open>visit_FunctionCall\<close> ends the call only after a body statement that is itself
  a \<open>ReturnStmt\<close>; a \<open>return\<close> inside an \<open>if\<close> is evaluated as the value of the \<open>if\<close> and the
  body goes on. In the program below \<open>f(1)\<close> takes the branch \<open>return 1\<close> and still returns 2.
\<close>

theorem C3_nested_return_does_not_end_the_call:
  "(case run_source 60
      ''fn f(n: Int) -> Int { if n <= 1 { return 1; } return n * 2; } let r = f(1);'' of
      Ok (res, st) \<Rightarrow> env_get st (global_env st) (NameStr ''r'')
    | Raise e \<Rightarrow> Timeout | Timeout \<Rightarrow> Timeout | Unmodelled \<Rightarrow> Timeout) = Ok (VInt 2)"
  by code_simp

section \<open>Scopes (C7)\<close>

lemma names_kept_imp: "names_kept st st' \<Longrightarrow> scopes_kept st st'"
  by (simp add: names_kept_def scopes_kept_def)

lemma scopes_kept_refl: "scopes_kept st st"
  by (simp add: scopes_kept_def)

lemma names_kept_refl: "names_kept st st"
  by (simp add: names_kept_def)

lemma scopes_kept_trans: "scopes_kept a b \<Longrightarrow> scopes_kept b c \<Longrightarrow> scopes_kept a c"
  by (auto simp: scopes_kept_def)

lemma names_kept_trans: "names_kept a b \<Longrightarrow> names_kept b c \<Longrightarrow> names_kept a c"
  by (auto simp: names_kept_def)

lemma scopes_kept_stdout: "scopes_kept st (st\<lparr>stdout := out\<rparr>)"
  by (simp add: scopes_kept_def)

lemma env_define_simps:
  "global_env (env_define a name v st) = global_env st"
  "length (store (env_define a name v st)) = length (store st)"
  "stdout (env_define a name v st) = stdout st"
  by (simp_all add: env_define_def)

lemma env_define_nth:
  "b < length (store st) \<Longrightarrow>
     store (env_define a name v st) ! b =
       (if b = a then (store st ! a)\<lparr>vars := AList.update name v (vars (store st ! a))\<rparr>
        else store st ! b)"
  by (simp add: env_define_def nth_list_update)

lemma scopes_kept_define: "scopes_kept st (env_define (global_env st) name v st)"
  by (simp add: scopes_kept_def env_define_simps env_define_nth)

lemma names_update_present:
  "map_of al k = Some old \<Longrightarrow> map fst (AList.update k v al) = map fst al"
  by (induction al) (auto split: if_splits)

lemma names_kept_define_present:
  assumes "a < length (store st)" and "lookup (store st ! a) (NameStr name) = Some old"
  shows "names_kept st (env_define a name v st)"
  using assms
  by (auto simp: names_kept_def env_define_simps env_define_nth lookup_def names_def
      names_update_present)

lemma names_kept_assign: "names_kept st (snd (env_assign st a name v))"
proof (induction st a name v rule: env_assign.induct)
  case (1 st a name v)
  show ?case
  proof (cases "a \<ge> length (store st)")
    case True
    then show ?thesis by (simp add: env_assign.simps[of st a] names_kept_refl)
  next
    case False
    show ?thesis
    proof (cases "lookup (store st ! a) (NameStr name)")
      case (Some old)
      with False show ?thesis
        by (simp add: env_assign.simps[of st a] names_kept_define_present)
    next
      case None
      show ?thesis
      proof (cases "parent (store st ! a)")
        case N: None
        with False None show ?thesis by (simp add: env_assign.simps[of st a] names_kept_refl)
      next
        case (Some p)
        show ?thesis
        proof (cases "p < a")
          case True
          with False None Some "1.IH" show ?thesis by (simp add: env_assign.simps[of st a])
        next
          case F: False
          with False None Some show ?thesis by (simp add: env_assign.simps[of st a] names_kept_refl)
        qed
      qed
    qed
  qed
qed

lemma visitor_okD: "visitor_ok v \<Longrightarrow> v node st = (res, st1) \<Longrightarrow> scopes_kept st st1"
  by (metis visitor_ok_def snd_conv)

lemma exec_stmts_kept:
  assumes "visitor_ok v"
  shows "scopes_kept st (snd (exec_stmts v r stmts st))"
proof (induction stmts arbitrary: r st)
  case Nil
  show ?case by (simp add: scopes_kept_refl)
next
  case (Cons stmt stmts)
  obtain res st1 where v: "v stmt st = (res, st1)" by (cases "v stmt st")
  have k: "scopes_kept st st1"
    using assms v by (rule visitor_okD)
  show ?case
  proof (cases res)
    case (Ok x)
    with v Cons.IH[of st1 x] k show ?thesis by (auto intro: scopes_kept_trans)
  qed (use v k in auto)
qed

lemma push_env_simps:
  "global_env (push_env st) = length (store st)"
  "store (push_env st) = store st @ [\<lparr>vars = [], parent = Some (global_env st)\<rparr>]"
  "stdout (push_env st) = stdout st"
  by (simp_all add: push_env_def Environment_def)

lemma names_kept_scope:
  assumes "scopes_kept sp st3" and "global_env sp = length (store st)"
    and "length (store sp) = Suc (length (store st))"
    and "\<forall>a < length (store st). parent (store sp ! a) = parent (store st ! a) \<and> names (store sp ! a) = names (store st ! a)"
  shows "names_kept st (st3\<lparr>global_env := global_env st\<rparr>)"
  using assms by (auto simp: names_kept_def scopes_kept_def)

lemma scoped_block_kept:
  assumes "visitor_ok v"
  shows "names_kept st (snd (scoped_block v r stmts st))"
proof -
  obtain res st3 where e: "exec_stmts v r stmts (push_env st) = (res, st3)"
    by (cases "exec_stmts v r stmts (push_env st)")
  have "scopes_kept (push_env st) st3"
    using exec_stmts_kept[OF assms, of "push_env st" r stmts] e by simp
  then have "names_kept st (st3\<lparr>global_env := global_env st\<rparr>)"
    by (rule names_kept_scope) (simp_all add: push_env_simps nth_append)
  with e show ?thesis by (simp add: scoped_block_def)
qed


lemma for_loop_kept:
  assumes "visitor_ok v"
  shows "names_kept st (snd (for_loop v x body r items st))"
proof (induction items arbitrary: r st)
  case Nil
  show ?case by (simp add: names_kept_refl)
next
  case (Cons item items)
  let ?sp = "env_define (global_env (push_env st)) x item (push_env st)"
  obtain res st3 where e: "exec_stmts v r body ?sp = (res, st3)"
    by (cases "exec_stmts v r body ?sp")
  have "scopes_kept ?sp st3"
    using exec_stmts_kept[OF assms, of ?sp r body] e by simp
  then have k: "names_kept st (st3\<lparr>global_env := global_env st\<rparr>)"
    by (rule names_kept_scope)
       (simp_all add: push_env_simps env_define_simps env_define_nth nth_append)
  show ?case
  proof (cases res)
    case (Ok val)
    have "names_kept (st3\<lparr>global_env := global_env st\<rparr>)
        (snd (for_loop v x body val items (st3\<lparr>global_env := global_env st\<rparr>)))"
      by (rule Cons.IH)
    with k e Ok show ?thesis by (auto simp: Let_def intro: names_kept_trans)
  qed (use k e in \<open>auto simp: Let_def\<close>)
qed

lemma while_loop_kept:
  assumes "visitor_ok v"
  shows "scopes_kept st (snd (while_loop k v cond body r st))"
proof (induction k arbitrary: r st)
  case 0
  show ?case by (simp add: scopes_kept_refl)
next
  case (Suc k)
  obtain c st1 where c: "v cond st = (c, st1)" by (cases "v cond st")
  have k1: "scopes_kept st st1" using assms c by (rule visitor_okD)
  show ?case
  proof (cases c)
    case (Ok cv)
    show ?thesis
    proof (cases "truthy cv")
      case True
      obtain res st2 where b: "scoped_block v r body st1 = (res, st2)"
        by (cases "scoped_block v r body st1")
      have k2: "scopes_kept st1 st2"
        using scoped_block_kept[OF assms, of st1 r body] b by (simp add: names_kept_imp)
      show ?thesis
      proof (cases res)
        case O: (Ok val)
        have "scopes_kept st2 (snd (while_loop k v cond body val st2))" by (rule Suc.IH)
        with c Ok True b O k1 k2 show ?thesis by (auto intro: scopes_kept_trans)
      qed (use c Ok True b k1 k2 in \<open>auto intro: scopes_kept_trans\<close>)
    next
      case False
      with c Ok k1 show ?thesis by simp
    qed
  qed (use c k1 in auto)
qed

lemma eval_args_kept:
  assumes "visitor_ok v"
  shows "scopes_kept st (snd (eval_args v args st))"
proof (induction args arbitrary: st)
  case Nil
  show ?case by (simp add: scopes_kept_refl)
next
  case (Cons arg args)
  obtain res st1 where a: "v arg st = (res, st1)" by (cases "v arg st")
  have k1: "scopes_kept st st1" using assms a by (rule visitor_okD)
  show ?case
  proof (cases res)
    case (Ok val)
    obtain rs st2 where b: "eval_args v args st1 = (rs, st2)" by (cases "eval_args v args st1")
    have "scopes_kept st1 st2" using Cons.IH[of st1] b by simp
    with k1 have "scopes_kept st st2" by (rule scopes_kept_trans)
    with a Ok b show ?thesis by (cases rs) auto
  qed (use a k1 in auto)
qed

lemma call_body_kept:
  assumes "visitor_ok v"
  shows "scopes_kept st (snd (call_body v r stmts st))"
proof (induction stmts arbitrary: r st)
  case Nil
  show ?case by (simp add: scopes_kept_refl)
next
  case (Cons stmt stmts)
  obtain res st1 where a: "v stmt st = (res, st1)" by (cases "v stmt st")
  have k: "scopes_kept st st1" using assms a by (rule visitor_okD)
  show ?case
  proof (cases res)
    case (Ok x)
    with a Cons.IH[of st1 x] k show ?thesis by (auto intro: scopes_kept_trans)
  qed (use a k in auto)
qed

lemma define_all_simps:
  "global_env (define_all bs st) = global_env st"
  "length (store (define_all bs st)) = length (store st)"
  "b < length (store st) \<Longrightarrow> b \<noteq> global_env st \<Longrightarrow> store (define_all bs st) ! b = store st ! b"
  unfolding define_all_def
  by (induction bs arbitrary: st; simp add: env_define_simps env_define_nth split: prod.splits)+

lemma call_builtin_kept: "scopes_kept st (snd (call_builtin f args st))"
  by (auto simp: call_builtin_def scopes_kept_stdout scopes_kept_refl split: builtin.splits list.splits)

lemma user_call_kept:
  assumes "visitor_ok v"
  shows "scopes_kept st1
     (snd (case call_body v VNone body (define_all bs (push_env st1)) of
             (r, st3) \<Rightarrow> (r, st3\<lparr>global_env := global_env st1\<rparr>)))"
proof -
  let ?sp = "define_all bs (push_env st1)"
  obtain res st3 where e: "call_body v VNone body ?sp = (res, st3)"
    by (cases "call_body v VNone body ?sp")
  have "scopes_kept ?sp st3"
    using call_body_kept[OF assms, of ?sp VNone body] e by simp
  then have "names_kept st1 (st3\<lparr>global_env := global_env st1\<rparr>)"
    by (rule names_kept_scope)
       (simp_all add: push_env_simps define_all_simps nth_append)
  with e show ?thesis by (simp add: names_kept_imp)
qed

lemma visit_FunctionCall_kept:
  assumes "visitor_ok v"
  shows "scopes_kept st (snd (visit_FunctionCall v name args st))"
proof (cases "env_get st (global_env st) name")
  case (Ok func_def)
  obtain rs st1 where a: "eval_args v args st = (rs, st1)" by (cases "eval_args v args st")
  have k1: "scopes_kept st st1" using eval_args_kept[OF assms, of st args] a by simp
  show ?thesis
  proof (cases func_def)
    case (VBuiltin f)
    show ?thesis
    proof (cases rs)
      case O: (Ok arg_values)
      have "scopes_kept st1 (snd (call_builtin f arg_values st1))" by (rule call_builtin_kept)
      with k1 have "scopes_kept st (snd (call_builtin f arg_values st1))" by (rule scopes_kept_trans)
      with Ok VBuiltin a O show ?thesis by (simp add: visit_FunctionCall_def)
    qed (use Ok VBuiltin a k1 in \<open>simp_all add: visit_FunctionCall_def\<close>)
  next
    case (VNode fd)
    show ?thesis
    proof (cases fd)
      case (FunctionDef fname params return_type body)
      show ?thesis
      proof (cases "length args \<noteq> length params")
        case True
        with Ok VNode FunctionDef show ?thesis
          by (simp add: visit_FunctionCall_def scopes_kept_refl)
      next
        case False
        show ?thesis
        proof (cases rs)
          case O: (Ok arg_values)
          have "scopes_kept st1
            (snd (case call_body v VNone body (define_all (arg_bindings params arg_values) (push_env st1)) of
               (r, st3) \<Rightarrow> (r, st3\<lparr>global_env := global_env st1\<rparr>)))"
            using assms by (rule user_call_kept)
          with k1 have "scopes_kept st
            (snd (case call_body v VNone body (define_all (arg_bindings params arg_values) (push_env st1)) of
               (r, st3) \<Rightarrow> (r, st3\<lparr>global_env := global_env st1\<rparr>)))"
            by (rule scopes_kept_trans)
          with Ok VNode FunctionDef False a O show ?thesis
            by (simp add: visit_FunctionCall_def Let_def)
        qed (use Ok VNode FunctionDef False a k1 in \<open>simp_all add: visit_FunctionCall_def\<close>)
      qed
    qed (use Ok VNode in \<open>simp_all add: visit_FunctionCall_def scopes_kept_refl\<close>)
  qed (use Ok in \<open>simp_all add: visit_FunctionCall_def scopes_kept_refl\<close>)
qed (simp_all add: visit_FunctionCall_def scopes_kept_refl)

lemma match_arms_kept:
  assumes "visitor_ok v"
  shows "scopes_kept st (snd (match_arms v m arms st))"
proof (induction arms arbitrary: st)
  case Nil
  show ?case by (simp add: scopes_kept_refl)
next
  case (Cons arm arms)
  obtain pattern result_expr where arm: "arm = (pattern, result_expr)" by (cases arm)
  obtain pr st1 where p: "v pattern st = (pr, st1)" by (cases "v pattern st")
  have k1: "scopes_kept st st1" using assms p by (rule visitor_okD)
  have k2: "\<And>s. scopes_kept s (snd (v result_expr s))"
    using assms by (simp add: visitor_ok_def)
  show ?case
  proof (cases "is_literal pattern")
    case True
    show ?thesis
    proof (cases pr)
      case (Ok pv)
      show ?thesis
      proof (cases "py_eq m pv")
        case None
        with arm True p Ok k1 show ?thesis by simp
      next
        case (Some b)
        have "scopes_kept st (snd (v result_expr st1))"
          using k1 k2 by (rule scopes_kept_trans)
        moreover have "scopes_kept st (snd (match_arms v m arms st1))"
          using k1 Cons.IH by (rule scopes_kept_trans)
        ultimately show ?thesis using arm True p Ok Some by (cases b) simp_all
      qed
    qed (use arm True p k1 in simp_all)
  next
    case False
    with arm k2 Cons.IH show ?thesis by simp
  qed
qed

lemma visit_Suc_kept:
  assumes "visitor_ok (visit n)"
  shows "scopes_kept st (snd (visit (Suc n) node st))"
proof -
  have sub: "\<And>nd s. scopes_kept s (snd (visit n nd s))"
    using assms by (simp add: visitor_ok_def)
  have seq: "\<And>nd s r s1 s2. visit n nd s = (r, s1) \<Longrightarrow> scopes_kept s1 s2 \<Longrightarrow> scopes_kept s s2"
    using assms by (blast intro: scopes_kept_trans visitor_okD)
  show ?thesis
  proof (cases node)
    case (Program statements)
    then show ?thesis by (simp add: visit_Program_def exec_stmts_kept[OF assms])
  next
    case (FunctionDef name params return_type body)
    then show ?thesis by (simp add: visit_FunctionDef_def scopes_kept_define)
  next
    case (VariableDecl mutable name var_type v)
    obtain r s1 where e: "visit n v st = (r, s1)" by (cases "visit n v st")
    have "scopes_kept st s1" using assms e by (rule visitor_okD)
    moreover have "scopes_kept st (env_define (global_env s1) name x s1)" for x
      using e scopes_kept_define by (rule seq)
    ultimately show ?thesis using VariableDecl e
      by (cases r) (simp_all add: visit_VariableDecl_def)
  next
    case (ConstantDecl name v)
    obtain r s1 where e: "visit n v st = (r, s1)" by (cases "visit n v st")
    have "scopes_kept st s1" using assms e by (rule visitor_okD)
    moreover have "scopes_kept st (env_define (global_env s1) name x s1)" for x
      using e scopes_kept_define by (rule seq)
    ultimately show ?thesis using ConstantDecl e
      by (cases r) (simp_all add: visit_ConstantDecl_def)
  next
    case (Assignment name v)
    obtain r s1 where e: "visit n v st = (r, s1)" by (cases "visit n v st")
    have k1: "scopes_kept st s1" using assms e by (rule visitor_okD)
    have k2: "scopes_kept st (snd (env_assign s1 (global_env s1) name x))" for x
      using e names_kept_imp[OF names_kept_assign] by (rule seq)
    show ?thesis
    proof (cases r)
      case (Ok x)
      obtain u s2 where a: "env_assign s1 (global_env s1) name x = (u, s2)"
        by (cases "env_assign s1 (global_env s1) name x")
      with k2[of x] have "scopes_kept st s2" by simp
      with Assignment e Ok a show ?thesis
        by (cases u) (simp_all add: visit_Assignment_def)
    qed (use Assignment e k1 in \<open>simp_all add: visit_Assignment_def\<close>)
  next
    case (BinaryOp left operator right)
    obtain r s1 where e: "visit n left st = (r, s1)" by (cases "visit n left st")
    obtain r2 s2 where e2: "visit n right s1 = (r2, s2)" by (cases "visit n right s1")
    have k1: "scopes_kept st s1" using assms e by (rule visitor_okD)
    have "scopes_kept s1 s2" using assms e2 by (rule visitor_okD)
    with k1 have k2: "scopes_kept st s2" by (rule scopes_kept_trans)
    show ?thesis using BinaryOp e e2 k1 k2
      by (cases r; cases r2) (simp_all add: visit_BinaryOp_def)
  next
    case (UnaryOp operator operand)
    obtain r s1 where e: "visit n operand st = (r, s1)" by (cases "visit n operand st")
    have "scopes_kept st s1" using assms e by (rule visitor_okD)
    with UnaryOp e show ?thesis by (cases r) (simp_all add: visit_UnaryOp_def)
  next
    case (IfExpr condition then_branch else_branch)
    obtain r s1 where e: "visit n condition st = (r, s1)" by (cases "visit n condition st")
    have k1: "scopes_kept st s1" using assms e by (rule visitor_okD)
    have k2: "scopes_kept st (snd (scoped_block (visit n) VNone stmts s1))" for stmts
      using e names_kept_imp[OF scoped_block_kept[OF assms]] by (rule seq)
    show ?thesis using IfExpr e k1 k2
      by (cases r) (auto simp: visit_IfExpr_def split: option.splits list.splits)
  next
    case (WhileLoop condition body)
    then show ?thesis by (simp add: visit_WhileLoop_def while_loop_kept[OF assms])
  next
    case (ForLoop variable iterable body)
    obtain r s1 where e: "visit n iterable st = (r, s1)" by (cases "visit n iterable st")
    have k1: "scopes_kept st s1" using assms e by (rule visitor_okD)
    have k2: "scopes_kept st (snd (for_loop (visit n) variable body VNone items s1))" for items
      using e names_kept_imp[OF for_loop_kept[OF assms]] by (rule seq)
    show ?thesis using ForLoop e k1 k2
      by (cases r) (auto simp: visit_ForLoop_def split: pyvalue.splits)
  next
    case (ReturnStmt v)
    then show ?thesis by (cases v) (simp_all add: visit_ReturnStmt_def sub scopes_kept_refl)
  next
    case (FunctionCall name args)
    then show ?thesis by (simp add: visit_FunctionCall_kept[OF assms])
  next
    case (Identifier name)
    then show ?thesis by (simp add: visit_Identifier_def scopes_kept_refl)
  next
    case (Number v)
    then show ?thesis by (simp add: scopes_kept_refl)
  next
    case (String v)
    then show ?thesis by (simp add: scopes_kept_refl)
  next
    case (Boolean v)
    then show ?thesis by (simp add: scopes_kept_refl)
  next
    case (MatchExpr expr arms)
    obtain r s1 where e: "visit n expr st = (r, s1)" by (cases "visit n expr st")
    have k1: "scopes_kept st s1" using assms e by (rule visitor_okD)
    have k2: "scopes_kept st (snd (match_arms (visit n) m arms s1))" for m
      using e match_arms_kept[OF assms] by (rule seq)
    show ?thesis using MatchExpr e k1 k2
      by (cases r) (simp_all add: visit_MatchExpr_def)
  qed
qed

lemma visit_kept: "visitor_ok (visit n)"
proof (induction n)
  case 0
  show ?case by (simp add: visitor_ok_def scopes_kept_refl)
next
  case (Suc n)
  then show ?case using visit_Suc_kept by (simp add: visitor_ok_def)
qed

text \<open>
  C7. Every visit leaves the current environment as it found it, whatever the outcome
  (a value, an exception, the budget running out): the body of an \<open>if\<close>, of a \<open>while\<close> or
  \<open>for\<close> iteration and of a called function runs in a new environment whose parent is the
  current one (\<open>push_env\<close>), and the \<open>finally\<close> clause puts the saved environment back. The
  environments that existed before keep their names: what a body defines goes into its own
  environment and is dropped with it (\<open>names_kept\<close> for a block and for a whole \<open>for\<close>
  loop). The loop \<open>for x in xs { println(x); }\<close> over \<open>[1, 2, 3]\<close> prints 1, 2, 3 in this
  order and nothing else; and in \<open>for x in xs { if x == 2 { println(y); } let y = x; }\<close>
  the \<open>y\<close> defined in the first iteration is unknown in the second.
\<close>

theorem C7_scopes_are_pushed_and_restored:
  "global_env (snd (visit n node st)) = global_env st
   \<and> scopes_kept st (snd (visit n node st))
   \<and> store (push_env st) = store st @ [\<lparr>vars = [], parent = Some (global_env st)\<rparr>]
   \<and> global_env (push_env st) = length (store st)
   \<and> names_kept st (snd (scoped_block (visit n) r stmts st))
   \<and> names_kept st (snd (for_loop (visit n) x body r items st))
   \<and> fst (visit 5 for_println interpreter_with_xs) = Ok VNone
   \<and> stdout (snd (visit 5 for_println interpreter_with_xs)) = [[VInt 1], [VInt 2], [VInt 3]]
   \<and> fst (visit 5 for_scope interpreter_with_xs) = Raise (NameError_Undefined (NameStr ''y''))
   \<and> stdout (snd (visit 5 for_scope interpreter_with_xs)) = []"
proof -
  have k: "scopes_kept st (snd (visit n node st))"
    using visit_kept[of n] by (simp add: visitor_ok_def)
  then have g: "global_env (snd (visit n node st)) = global_env st"
    by (simp add: scopes_kept_def)
  have b: "names_kept st (snd (scoped_block (visit n) r stmts st))"
    using visit_kept by (rule scoped_block_kept)
  have f: "names_kept st (snd (for_loop (visit n) x body r items st))"
    using visit_kept by (rule for_loop_kept)
  have e1: "fst (visit 5 for_println interpreter_with_xs) = Ok VNone"
    by code_simp
  have e2: "stdout (snd (visit 5 for_println interpreter_with_xs)) = [[VInt 1], [VInt 2], [VInt 3]]"
    by code_simp
  have e3: "fst (visit 5 for_scope interpreter_with_xs) = Raise (NameError_Undefined (NameStr ''y''))"
    by code_simp
  have e4: "stdout (snd (visit 5 for_scope interpreter_with_xs)) = []"
    by code_simp
  from k g b f e1 e2 e3 e4 show ?thesis
    by (simp add: push_env_simps)
qed

theorem C7_witness:
  "scopes_kept interpreter_with_xs (snd (visit 5 for_println interpreter_with_xs))
   \<and> global_env (snd (visit 5 for_println interpreter_with_xs)) = 0"
  using C7_scopes_are_pushed_and_restored [of 5 for_println interpreter_with_xs]
  by (simp add: interpreter_with_xs_def Interpreter_def env_define_simps)

section \<open>Division by zero (C8)\<close>

text \<open>
  C8. When both operands of a division have been evaluated and the right one equals zero
  (\<open>right == 0\<close>: the integer 0, \<open>False\<close> or a float zero), \<open>visit_BinaryOp\<close> raises
  \<open>ZeroDivisionError\<close>: the outcome is an exception and no value, so no infinity and no
  NaN.
\<close>

theorem C8_division_by_zero_raises:
  assumes "visit n left st = (Ok l, st1)" and "visit n right st1 = (Ok r, st2)"
    and "py_eq r (VInt 0) = Some True"
  shows "visit (Suc n) (BinaryOp left ''/'' right) st = (Raise ZeroDivisionError, st2)"
  using assms by (simp add: visit_BinaryOp_def binary_op_def)

lemma zero_values:
  "py_eq r (VInt 0) = Some True \<longleftrightarrow> r = VInt 0 \<or> r = VBool False \<or> r = VFloat (Finite 0)"
proof (cases r)
  case (VFloat f)
  then show ?thesis by (cases f) auto
qed (auto split: if_splits)

theorem C8_witness:
  "visit (Suc (Suc 0)) (BinaryOp (Number 10) ''/'' (Number 0)) Interpreter
     = (Raise ZeroDivisionError, Interpreter)"
  using C8_division_by_zero_raises
    [of "Suc 0" "Number 10" Interpreter "VInt 10" Interpreter "Number 0" "VInt 0" Interpreter]
  by simp

section \<open>Match arms (C6)\<close>

lemma py_eq_int_total: "py_eq v (VInt i) \<noteq> None"
  by (cases v) (auto split: option.splits)

lemma py_eq_bool_total: "py_eq v (VBool b) \<noteq> None"
  by (cases v) (auto split: option.splits)

lemma py_eq_str_total: "py_eq v (VStr s) \<noteq> None"
  by (cases v) (auto split: option.splits)

lemma match_arms_first:
  "match_arms (visit (Suc n)) v arms st =
     (case first_matching_arm v arms of
        Some r \<Rightarrow> visit (Suc n) r st
      | None \<Rightarrow> (Raise (ValueError_NoMatch v), st))"
proof (induction arms)
  case Nil
  show ?case by (simp add: first_matching_arm_def)
next
  case (Cons arm arms)
  obtain pattern result_expr where arm: "arm = (pattern, result_expr)" by (cases arm)
  show ?case
  proof (cases pattern)
    case (Number i)
    with arm Cons py_eq_int_total[of v i] show ?thesis
      by (cases "py_eq v (VInt i)") (auto simp: first_matching_arm_def is_literal_def)
  next
    case (String s)
    with arm Cons py_eq_str_total[of v s] show ?thesis
      by (cases "py_eq v (VStr s)") (auto simp: first_matching_arm_def is_literal_def)
  next
    case (Boolean b)
    with arm Cons py_eq_bool_total[of v b] show ?thesis
      by (cases "py_eq v (VBool b)") (auto simp: first_matching_arm_def is_literal_def)
  next
    case (Identifier x)
    with arm show ?thesis
      by (simp add: first_matching_arm_def is_literal_def is_Identifier_def)
  qed (use arm Cons in \<open>simp_all add: first_matching_arm_def is_literal_def is_Identifier_def\<close>)
qed

text \<open>
  C6. A \<open>match\<close> evaluates its scrutinee once and then gives the result of the first arm
  that matches, in the order of the arms, where a literal pattern matches by equality of
  values and an identifier pattern always matches; with no such arm it raises. So an
  identifier arm placed first wins over every arm after it, a literal arm equal to the
  scrutinee included.
\<close>

theorem C6_match_takes_the_first_matching_arm:
  "visit (Suc (Suc n)) (MatchExpr e arms) st =
     (case visit (Suc n) e st of
        (Ok v, st1) \<Rightarrow>
          (case first_matching_arm v arms of
             Some r \<Rightarrow> visit (Suc n) r st1
           | None \<Rightarrow> (Raise (ValueError_NoMatch v), st1))
      | (r, st1) \<Rightarrow> (r, st1))
   \<and> visit (Suc (Suc n)) (MatchExpr e ((Identifier x, r1) # arms)) st =
     (case visit (Suc n) e st of
        (Ok v, st1) \<Rightarrow> visit (Suc n) r1 st1
      | (r, st1) \<Rightarrow> (r, st1))"
  by (auto simp: visit_MatchExpr_def match_arms_first first_matching_arm_def is_literal_def
      is_Identifier_def split: prod.splits outcome.splits)

lemma match_catch_all_first_example:
  "(case run_source 60 ''let x = 2; match x { y => 1, 2 => 3 }'' of
      Ok (res, st) \<Rightarrow> res
    | Raise e \<Rightarrow> Timeout | Timeout \<Rightarrow> Timeout | Unmodelled \<Rightarrow> Timeout) = Ok (VInt 1)"
  by code_simp

theorem C6_witness:
  "visit (Suc (Suc 0)) (MatchExpr (Number 2) [(Identifier ''y'', Number 1), (Number 2, Number 3)])
     Interpreter = (Ok (VInt 1), Interpreter)"
  using C6_match_takes_the_first_matching_arm
    [where n = 0 and e = "Number 2" and x = "''y''" and ?r1.0 = "Number 1"
      and arms = "[(Number 2, Number 3)]" and st = Interpreter]
  by simp

section \<open>Calls of user-defined functions (C4)\<close>

text \<open>
  C4. The program \<^verbatim>\<open>fn add(a: Int, b: Int) -> Int { return a + b; } let r = add(2, 3);\<close>,
  lexed, parsed and interpreted, binds \<open>r\<close> to 5. A call of a user-defined function with
  a number of arguments other than its number of parameters raises the arity error before
  any argument is evaluated and leaves the state as it was: no parameter is bound.
\<close>

theorem C4_add_and_arity:
  "(case run_source 60
      ''fn add(a: Int, b: Int) -> Int { return a + b; } let r = add(2, 3);'' of
      Ok (res, st) \<Rightarrow> env_get st (global_env st) (NameStr ''r'')
    | Raise e \<Rightarrow> Timeout | Timeout \<Rightarrow> Timeout | Unmodelled \<Rightarrow> Timeout) = Ok (VInt 5)
   \<and> (env_get st (global_env st) name = Ok (VNode (FunctionDef fname params rt body)) \<longrightarrow>
      length args \<noteq> length params \<longrightarrow>
      visit (Suc n) (FunctionCall name args) st
        = (Raise (ValueError_Arity name (length params) (length args)), st))"
proof -
  have "(case run_source 60
      ''fn add(a: Int, b: Int) -> Int { return a + b; } let r = add(2, 3);'' of
      Ok (res, st) \<Rightarrow> env_get st (global_env st) (NameStr ''r'')
    | Raise e \<Rightarrow> Timeout | Timeout \<Rightarrow> Timeout | Unmodelled \<Rightarrow> Timeout) = Ok (VInt 5)"
    by code_simp
  then show ?thesis by (simp add: visit_FunctionCall_def)
qed


theorem C4_witness:
  "visit (Suc (Suc 0)) (FunctionCall (NameStr ''add'') [Number 1]) interpreter_with_add
     = (Raise (ValueError_Arity (NameStr ''add'') 2 1), interpreter_with_add)
   \<and> parse_source 60 ''fn add(a: Int, b: Int) -> Int { return a + b; }'' = Ok (Program [add_node])"
proof -
  have g: "env_get interpreter_with_add (global_env interpreter_with_add) (NameStr ''add'')
      = Ok (VNode (FunctionDef ''add'' [(''a'', ''Int''), (''b'', ''Int'')] (Some ''Int'')
          [ReturnStmt (Some (BinaryOp (Identifier ''a'') ''+'' (Identifier ''b'')))]))"
    by code_simp
  have p: "parse_source 60 ''fn add(a: Int, b: Int) -> Int { return a + b; }'' = Ok (Program [add_node])"
    by code_simp
  show ?thesis
    using g p C4_add_and_arity
      [where st = interpreter_with_add and name = "NameStr ''add''" and fname = "''add''"
        and params = "[(''a'', ''Int''), (''b'', ''Int'')]" and rt = "Some ''Int''"
        and body = "[ReturnStmt (Some (BinaryOp (Identifier ''a'') ''+'' (Identifier ''b'')))]"
        and args = "[Number 1]" and n = "Suc 0"]
    by simp
qed

end
